theory Spec2Isabelle
  imports Main
begin

section \<open>Python values\<close>

text \<open>
  The dashboard handles values decoded from JSON and the \<^verbatim>\<open>None\<close> it uses itself.
  A Python \<^verbatim>\<open>str\<close> is modelled as the UTF-8 encoding of its code points, so a glyph
  outside ASCII is several characters. A \<^verbatim>\<open>float\<close> is identified by its \<^verbatim>\<open>repr\<close>, the
  shortest decimal that reads back as the same float (\<^verbatim>\<open>21.5\<close>, \<^verbatim>\<open>3.0\<close>, \<^verbatim>\<open>-0.0\<close>): the
  program only prints floats and uses them as lookup keys, it never computes with them.
  A \<^verbatim>\<open>dict\<close> decoded from JSON has string keys and is an association list read with
  \<^const>\<open>map_of\<close>.
\<close>

datatype pyval =
    PNone
  | PBool bool
  | PInt int
  | PFloat string
  | PStr string
  | PList "pyval list"
  | PDict "(string \<times> pyval) list"

text \<open>The exceptions the program can raise and does not catch.\<close>

datatype pyerr = TypeError | KeyError | AttributeError | IndexError | OverflowError

subsection \<open>Decimal rendering of integers\<close>

definition digit_char :: "nat \<Rightarrow> char" where
  "digit_char d = ''0123456789'' ! d"

fun str_nat :: "nat \<Rightarrow> string" where
  "str_nat n = (if n < 10 then [digit_char n] else str_nat (n div 10) @ [digit_char (n mod 10)])"

declare str_nat.simps [simp del]

definition str_int :: "int \<Rightarrow> string" where
  "str_int i = (if i < 0 then CHR ''-'' # str_nat (nat (- i)) else str_nat (nat i))"

subsection \<open>Hashing and key equality\<close>

text \<open>
  A \<^verbatim>\<open>list\<close> or a \<^verbatim>\<open>dict\<close> cannot be hashed: using one as a dictionary key raises
  \<^verbatim>\<open>TypeError\<close>, also in \<^verbatim>\<open>dict.get\<close>.
\<close>

fun hashable :: "pyval \<Rightarrow> bool" where
  "hashable (PList _) = False"
| "hashable (PDict _) = False"
| "hashable _ = True"

text \<open>
  Whether the float with the given \<^verbatim>\<open>repr\<close> is numerically equal to the integer \<open>k\<close>,
  for \<open>\<bar>k\<bar> < 10\<^sup>1\<^sup>6\<close> (where \<^verbatim>\<open>repr\<close> does not use an exponent).
\<close>

definition float_eq_int :: "string \<Rightarrow> int \<Rightarrow> bool" where
  "float_eq_int r k = (r = str_int k @ ''.0'' \<or> (k = 0 \<and> r = ''-0.0''))"

text \<open>
  Python's \<^verbatim>\<open>==\<close> between a lookup key and an integer key of a dictionary:
  \<^verbatim>\<open>True == 1\<close>, \<^verbatim>\<open>False == 0\<close>, \<^verbatim>\<open>3.0 == 3\<close>; \<^verbatim>\<open>None\<close> and strings equal no integer.
\<close>

fun eq_int_key :: "pyval \<Rightarrow> int \<Rightarrow> bool" where
  "eq_int_key (PInt i) k = (i = k)"
| "eq_int_key (PBool b) k = ((if b then 1 else 0) = k)"
| "eq_int_key (PFloat r) k = float_eq_int r k"
| "eq_int_key _ k = False"

text \<open>\<^verbatim>\<open>d.get(key, default)\<close> on a dictionary with integer keys.\<close>

definition int_dict_get :: "(int \<times> 'v) list \<Rightarrow> pyval \<Rightarrow> 'v \<Rightarrow> pyerr + 'v" where
  "int_dict_get d key dflt =
     (if \<not> hashable key then Inl TypeError
      else case find (\<lambda>(k, v). eq_int_key key k) d of
             Some (k, v) \<Rightarrow> Inr v
           | None \<Rightarrow> Inr dflt)"

section \<open>The icon table\<close>

text \<open>The glyphs of \<^verbatim>\<open>WEATHER_ICONS\<close>, as UTF-8.\<close>

definition variation_selector :: string where
  "variation_selector = [CHR 0xEF, CHR 0xB8, CHR 0x8F]"

definition glyph_sun :: string where
  "glyph_sun = [CHR 0xE2, CHR 0x98, CHR 0x80] @ variation_selector"

definition glyph_sun_small_cloud :: string where
  "glyph_sun_small_cloud = [CHR 0xF0, CHR 0x9F, CHR 0x8C, CHR 0xA4] @ variation_selector"

definition glyph_sun_behind_cloud :: string where
  "glyph_sun_behind_cloud = [CHR 0xE2, CHR 0x9B, CHR 0x85] @ variation_selector"

definition glyph_cloud :: string where
  "glyph_cloud = [CHR 0xE2, CHR 0x98, CHR 0x81] @ variation_selector"

definition glyph_fog :: string where
  "glyph_fog = [CHR 0xF0, CHR 0x9F, CHR 0x8C, CHR 0xAB] @ variation_selector"

definition glyph_sun_rain :: string where
  "glyph_sun_rain = [CHR 0xF0, CHR 0x9F, CHR 0x8C, CHR 0xA6] @ variation_selector"

definition glyph_cloud_snow :: string where
  "glyph_cloud_snow = [CHR 0xF0, CHR 0x9F, CHR 0x8C, CHR 0xA8] @ variation_selector"

definition glyph_cloud_rain :: string where
  "glyph_cloud_rain = [CHR 0xF0, CHR 0x9F, CHR 0x8C, CHR 0xA7] @ variation_selector"

definition glyph_snowflake :: string where
  "glyph_snowflake = [CHR 0xE2, CHR 0x9D, CHR 0x84] @ variation_selector"

definition glyph_thunder :: string where
  "glyph_thunder = [CHR 0xE2, CHR 0x9B, CHR 0x88] @ variation_selector"

definition glyph_unknown :: string where
  "glyph_unknown = [CHR 0xE2, CHR 0x9D, CHR 0x93]"

definition WEATHER_ICONS :: "(int \<times> string) list" where
  "WEATHER_ICONS =
    [(0, glyph_sun), (1, glyph_sun_small_cloud), (2, glyph_sun_behind_cloud), (3, glyph_cloud),
     (45, glyph_fog), (48, glyph_fog),
     (51, glyph_sun_rain), (53, glyph_sun_rain), (55, glyph_sun_rain),
     (56, glyph_cloud_snow), (57, glyph_cloud_snow),
     (61, glyph_cloud_rain), (63, glyph_cloud_rain), (65, glyph_cloud_rain),
     (66, glyph_cloud_snow), (67, glyph_cloud_snow),
     (71, glyph_snowflake), (73, glyph_snowflake), (75, glyph_snowflake),
     (77, glyph_snowflake),
     (80, glyph_cloud_rain), (81, glyph_cloud_rain), (82, glyph_cloud_rain),
     (85, glyph_snowflake), (86, glyph_snowflake),
     (95, glyph_thunder), (96, glyph_thunder), (99, glyph_thunder)]"

definition get_weather_icon :: "pyval \<Rightarrow> pyerr + string" where
  "get_weather_icon weather_code = int_dict_get WEATHER_ICONS weather_code glyph_unknown"

section \<open>Python operations on decoded values\<close>

text \<open>Sequencing of steps that may raise: the first exception ends the computation.\<close>

definition and_then :: "pyerr + 'a \<Rightarrow> ('a \<Rightarrow> pyerr + 'b) \<Rightarrow> pyerr + 'b" where
  "and_then r f = (case r of Inl e \<Rightarrow> Inl e | Inr a \<Rightarrow> f a)"

text \<open>Truth value of an object, as tested by \<^verbatim>\<open>if x:\<close>.\<close>

fun truthy :: "pyval \<Rightarrow> bool" where
  "truthy PNone = False"
| "truthy (PBool b) = b"
| "truthy (PInt i) = (i \<noteq> 0)"
| "truthy (PFloat r) = (r \<noteq> ''0.0'' \<and> r \<noteq> ''-0.0'')"
| "truthy (PStr s) = (s \<noteq> [])"
| "truthy (PList xs) = (xs \<noteq> [])"
| "truthy (PDict kvs) = (kvs \<noteq> [])"

text \<open>
  \<^verbatim>\<open>str(x)\<close>, which an f-string applies to each value it interpolates. The text of a list
  or a dict (the \<^verbatim>\<open>repr\<close> of its elements, with Python's quoting rules) is not modelled:
  it is the parameter \<open>container_repr\<close>.
\<close>

fun py_str :: "(pyval \<Rightarrow> string) \<Rightarrow> pyval \<Rightarrow> string" where
  "py_str container_repr PNone = ''None''"
| "py_str container_repr (PBool b) = (if b then ''True'' else ''False'')"
| "py_str container_repr (PInt i) = str_int i"
| "py_str container_repr (PFloat r) = r"
| "py_str container_repr (PStr s) = s"
| "py_str container_repr (PList xs) = container_repr (PList xs)"
| "py_str container_repr (PDict kvs) = container_repr (PDict kvs)"

text \<open>A continuation byte of UTF-8: every byte of a code point but its first.\<close>

definition is_continuation :: "char \<Rightarrow> bool" where
  "is_continuation c = (128 \<le> (of_char c :: nat) \<and> (of_char c :: nat) < 192)"

fun is_substring :: "string \<Rightarrow> string \<Rightarrow> bool" where
  "is_substring xs [] = (xs = [])"
| "is_substring xs (y # ys) = (take (length xs) (y # ys) = xs \<or> is_substring xs ys)"

text \<open>\<^verbatim>\<open>key in x\<close> for a string \<open>key\<close>: a key of a dict, an element of a list, a substring.\<close>

fun py_contains :: "string \<Rightarrow> pyval \<Rightarrow> pyerr + bool" where
  "py_contains key (PDict kvs) = Inr (map_of kvs key \<noteq> None)"
| "py_contains key (PList xs) = Inr (List.member xs (PStr key))"
| "py_contains key (PStr s) = Inr (is_substring key s)"
| "py_contains key _ = Inl TypeError"

text \<open>\<^verbatim>\<open>x[key]\<close> for a string \<open>key\<close>: only a dict can be indexed by a string.\<close>

fun py_getitem :: "pyval \<Rightarrow> string \<Rightarrow> pyerr + pyval" where
  "py_getitem (PDict kvs) key = (case map_of kvs key of Some v \<Rightarrow> Inr v | None \<Rightarrow> Inl KeyError)"
| "py_getitem _ key = Inl TypeError"

text \<open>
  \<^verbatim>\<open>x[0]\<close>: the first element of a list, the first code point of a string; a dict decoded
  from JSON has no key \<^verbatim>\<open>0\<close>.
\<close>

fun py_getitem0 :: "pyval \<Rightarrow> pyerr + pyval" where
  "py_getitem0 (PList xs) = (case xs of [] \<Rightarrow> Inl IndexError | x # _ \<Rightarrow> Inr x)"
| "py_getitem0 (PStr s) =
     (case s of [] \<Rightarrow> Inl IndexError | c # cs \<Rightarrow> Inr (PStr (c # takeWhile is_continuation cs)))"
| "py_getitem0 (PDict kvs) = Inl KeyError"
| "py_getitem0 _ = Inl TypeError"

text \<open>\<^verbatim>\<open>len(x)\<close>; a string counts its code points.\<close>

fun py_len :: "pyval \<Rightarrow> pyerr + nat" where
  "py_len (PList xs) = Inr (length xs)"
| "py_len (PStr s) = Inr (length (filter (\<lambda>c. \<not> is_continuation c) s))"
| "py_len (PDict kvs) = Inr (length kvs)"
| "py_len _ = Inl TypeError"

text \<open>The method \<^verbatim>\<open>x.get(key, default)\<close>, which only a dict has.\<close>

fun py_get :: "pyval \<Rightarrow> string \<Rightarrow> pyval \<Rightarrow> pyerr + pyval" where
  "py_get (PDict kvs) key dflt = Inr (case map_of kvs key of Some v \<Rightarrow> v | None \<Rightarrow> dflt)"
| "py_get _ key dflt = Inl AttributeError"

section \<open>Dates\<close>

text \<open>
  \<^verbatim>\<open>datetime\<close> of the standard library: a day of the proleptic Gregorian calendar and a
  time of day. Subtracting a \<^verbatim>\<open>timedelta\<close> of whole days goes through the ordinal of the
  day (1 for 0001-01-01), as the library does, and fails outside years 1 to 9999.
\<close>

record datetime =
  year :: int
  month :: int
  day :: int
  microsecond_of_day :: int

definition is_leap :: "int \<Rightarrow> bool" where
  "is_leap y = (y mod 4 = 0 \<and> (y mod 100 \<noteq> 0 \<or> y mod 400 = 0))"

definition DAYS_IN_MONTH :: "int list" where
  "DAYS_IN_MONTH = [-1, 31, 28, 31, 30, 31, 30, 31, 31, 30, 31, 30, 31]"

definition DAYS_BEFORE_MONTH :: "int list" where
  "DAYS_BEFORE_MONTH = [-1, 0, 31, 59, 90, 120, 151, 181, 212, 243, 273, 304, 334]"

definition days_before_year :: "int \<Rightarrow> int" where
  "days_before_year y = (y - 1) * 365 + (y - 1) div 4 - (y - 1) div 100 + (y - 1) div 400"

definition days_in_month :: "int \<Rightarrow> int \<Rightarrow> int" where
  "days_in_month y m = (if m = 2 \<and> is_leap y then 29 else DAYS_IN_MONTH ! nat m)"

definition days_before_month :: "int \<Rightarrow> int \<Rightarrow> int" where
  "days_before_month y m = DAYS_BEFORE_MONTH ! nat m + (if m > 2 \<and> is_leap y then 1 else 0)"

definition ymd2ord :: "int \<Rightarrow> int \<Rightarrow> int \<Rightarrow> int" where
  "ymd2ord y m d = days_before_year y + days_before_month y m + d"

definition MAXORDINAL :: int where
  "MAXORDINAL = 3652059"

text \<open>Month and day of the \<open>n\<close>-th day of a year, counted from 0.\<close>

definition month_and_day :: "bool \<Rightarrow> int \<Rightarrow> int \<times> int" where
  "month_and_day leapyear n =
     (let m = (n + 50) div 32;
          preceding = DAYS_BEFORE_MONTH ! nat m + (if m > 2 \<and> leapyear then 1 else 0)
      in if preceding > n
         then (m - 1,
               n - (preceding - (DAYS_IN_MONTH ! nat (m - 1)
                                 + (if m - 1 = 2 \<and> leapyear then 1 else 0))) + 1)
         else (m, n - preceding + 1))"

definition ord2ymd :: "int \<Rightarrow> int \<times> int \<times> int" where
  "ord2ymd n0 =
     (let n = n0 - 1;
          n400 = n div 146097; n = n mod 146097;
          n100 = n div 36524; n = n mod 36524;
          n4 = n div 1461; n = n mod 1461;
          n1 = n div 365; n = n mod 365;
          y = n400 * 400 + 1 + n100 * 100 + n4 * 4 + n1
      in if n1 = 4 \<or> n100 = 4 then (y - 1, 12, 31)
         else (case month_and_day (n1 = 3 \<and> (n4 \<noteq> 24 \<or> n100 = 3)) n of
                 (m, d) \<Rightarrow> (y, m, d)))"

definition toordinal :: "datetime \<Rightarrow> int" where
  "toordinal t = ymd2ord (year t) (month t) (day t)"

text \<open>\<^verbatim>\<open>t - timedelta(days=k)\<close>.\<close>

definition minus_days :: "datetime \<Rightarrow> int \<Rightarrow> pyerr + datetime" where
  "minus_days t k =
     (let n = toordinal t - k
      in if 0 < n \<and> n \<le> MAXORDINAL
         then (case ord2ymd n of (y, m, d) \<Rightarrow> Inr (t\<lparr>year := y, month := m, day := d\<rparr>))
         else Inl OverflowError)"

text \<open>
  \<^verbatim>\<open>strftime('%Y-%m-%d')\<close> as the C library prints it on Linux: the year in decimal
  without padding, the month and the day in two digits padded with a zero. (Other
  platforms pad the year to four digits; from the year 1000 on all agree.)
\<close>

definition zero_pad :: "nat \<Rightarrow> string \<Rightarrow> string" where
  "zero_pad w s = replicate (w - length s) CHR ''0'' @ s"

definition strftime_Ymd :: "datetime \<Rightarrow> string" where
  "strftime_Ymd t =
     str_nat (nat (year t)) @ ''-'' @ zero_pad 2 (str_nat (nat (month t)))
       @ ''-'' @ zero_pad 2 (str_nat (nat (day t)))"

section \<open>The dashboard\<close>

subsection \<open>What the program does to the outside\<close>

text \<open>
  The program issues HTTP requests and renders elements on the page or inside a tab.
  A run is the list of these events in order, with the result or the uncaught exception
  that ended it. A data frame is a value of the type parameter \<open>'df\<close>.
\<close>

type_synonym params = "(string \<times> pyval) list"

datatype 'df element =
    Title string
  | TextInput string string
  | Subheader string
  | ErrorMsg string
  | Warning string
  | Tabs "string list"
  | Columns nat
  | Metric nat string string
  | LineChart 'df
  | BarChart 'df
  | Expander string "'df element list"
  | Dataframe 'df

datatype place = Page | Tab nat

datatype 'df event =
    Request string params
  | Show place "'df element"

type_synonym ('e, 'a) run = "'e list \<times> (pyerr + 'a)"

definition then_do :: "('e, 'a) run \<Rightarrow> ('a \<Rightarrow> ('e, 'b) run) \<Rightarrow> ('e, 'b) run" where
  "then_do r f =
     (case r of
        (es, Inl e) \<Rightarrow> (es, Inl e)
      | (es, Inr a) \<Rightarrow> (case f a of (es', r') \<Rightarrow> (es @ es', r')))"

text \<open>
  The reply to \<^verbatim>\<open>requests.get\<close> followed by \<^verbatim>\<open>raise_for_status\<close> and \<^verbatim>\<open>json\<close>: the
  decoded document, or a \<^verbatim>\<open>RequestException\<close> (no connection, an error status, a body
  that is not JSON) with its message, the text the program prints for the exception.
\<close>

datatype http_reply = RequestException string | Json pyval

type_synonym http = "string \<Rightarrow> params \<Rightarrow> http_reply"

text \<open>
  Library functions the model takes as given: the text of a list or dict, \<^verbatim>\<open>str.title\<close>,
  and the pandas steps that turn a block of a payload into a data frame (and may raise).
\<close>

record 'df library =
  container_repr :: "pyval \<Rightarrow> string"
  title_case :: "string \<Rightarrow> string"
  time_indexed_frame :: "pyval \<Rightarrow> pyerr + 'df"
  temperature_columns :: "'df \<Rightarrow> pyerr + 'df"

definition GEOCODING_API_URL :: string where
  "GEOCODING_API_URL = ''https://geocoding-api.open-meteo.com/v1/search''"

definition WEATHER_API_URL :: string where
  "WEATHER_API_URL = ''https://api.open-meteo.com/v1/forecast''"

subsection \<open>\<^verbatim>\<open>get_coordinates\<close>\<close>

text \<open>The body of the \<^verbatim>\<open>try\<close> once the document is decoded.\<close>

definition first_location :: "pyval \<Rightarrow> pyerr + pyval \<times> pyval \<times> pyval" where
  "first_location data =
     and_then (py_contains ''results'' data) (\<lambda>has_results.
       if \<not> has_results then Inr (PNone, PNone, PNone)
       else
         and_then (py_getitem data ''results'') (\<lambda>results.
         and_then (py_len results) (\<lambda>n.
           if n > 0 then
             and_then (py_getitem0 results) (\<lambda>location.
             and_then (py_getitem location ''latitude'') (\<lambda>latitude.
             and_then (py_getitem location ''longitude'') (\<lambda>longitude.
             and_then (py_get location ''country'' (PStr [])) (\<lambda>country.
               Inr (latitude, longitude, country)))))
           else Inr (PNone, PNone, PNone))))"

definition get_coordinates :: "http \<Rightarrow> string \<Rightarrow> ('df event, pyval \<times> pyval \<times> pyval) run" where
  "get_coordinates http_get city_name =
     (let params = [(''name'', PStr city_name), (''count'', PInt 1)]
      in case http_get GEOCODING_API_URL params of
           Json data \<Rightarrow> ([Request GEOCODING_API_URL params], first_location data)
         | RequestException e \<Rightarrow>
             ([Request GEOCODING_API_URL params,
               Show Page (ErrorMsg (''Error during geocoding: '' @ e))],
              Inr (PNone, PNone, PNone)))"

subsection \<open>\<^verbatim>\<open>fetch_weather_data\<close>\<close>

text \<open>
  The query parameters, in the order the code inserts them. \<open>today\<close> is what
  \<^verbatim>\<open>datetime.utcnow()\<close> returned.
\<close>

definition weather_params :: "datetime \<Rightarrow> pyval \<Rightarrow> pyval \<Rightarrow> bool \<Rightarrow> pyerr + params" where
  "weather_params today latitude longitude is_historical =
     (let params = [(''latitude'', latitude), (''longitude'', longitude)]
      in if is_historical then
           and_then (minus_days today 7) (\<lambda>start.
           and_then (minus_days today 1) (\<lambda>end.
             Inr (params @ [(''start_date'', PStr (strftime_Ymd start)),
                            (''end_date'', PStr (strftime_Ymd end)),
                            (''daily'', PStr ''temperature_2m_max,temperature_2m_min,weather_code'')])))
         else
           Inr (params @ [(''current'', PStr ''temperature_2m,weather_code,precipitation_probability,wind_speed_10m''),
                          (''hourly'', PStr ''temperature_2m,precipitation_probability,wind_speed_10m''),
                          (''forecast_days'', PInt 1)]))"

definition fetch_weather_data ::
  "http \<Rightarrow> datetime \<Rightarrow> pyval \<Rightarrow> pyval \<Rightarrow> bool \<Rightarrow> ('df event, pyval) run" where
  "fetch_weather_data http_get today latitude longitude is_historical =
     (case weather_params today latitude longitude is_historical of
        Inl e \<Rightarrow> ([], Inl e)
      | Inr params \<Rightarrow>
          (case http_get WEATHER_API_URL params of
             Json data \<Rightarrow> ([Request WEATHER_API_URL params], Inr data)
           | RequestException e \<Rightarrow>
               ([Request WEATHER_API_URL params,
                 Show Page (ErrorMsg (''Error fetching weather data: '' @ e))],
                Inr PNone)))"

subsection \<open>The three tabs\<close>

definition degree_sign :: string where
  "degree_sign = [CHR 0xC2, CHR 0xB0]"

definition glyph_wind :: string where
  "glyph_wind = [CHR 0xF0, CHR 0x9F, CHR 0x92, CHR 0xA8]"

definition glyph_droplet :: string where
  "glyph_droplet = [CHR 0xF0, CHR 0x9F, CHR 0x92, CHR 0xA7]"

text \<open>
  The values \<^verbatim>\<open>tab1\<close> reads from the payload before it renders anything: temperature,
  icon, precipitation probability and wind speed, in the order the code computes them.
\<close>

definition current_fields :: "pyval \<Rightarrow> pyerr + pyval \<times> string \<times> pyval \<times> pyval" where
  "current_fields forecast_data =
     and_then (py_get forecast_data ''current'' (PDict [])) (\<lambda>current_weather.
     and_then (py_get current_weather ''temperature_2m'' PNone) (\<lambda>current_temp.
     and_then (py_get current_weather ''weather_code'' PNone) (\<lambda>current_weather_code.
     and_then (get_weather_icon current_weather_code) (\<lambda>weather_icon.
     and_then (py_get current_weather ''precipitation_probability'' PNone) (\<lambda>precip_prob.
     and_then (py_get current_weather ''wind_speed_10m'' PNone) (\<lambda>wind_speed.
       Inr (current_temp, weather_icon, precip_prob, wind_speed)))))))"

text \<open>The body of \<^verbatim>\<open>with tab1\<close>: the current conditions.\<close>

definition tab1 :: "'df library \<Rightarrow> pyval \<Rightarrow> ('df element, unit) run" where
  "tab1 lib forecast_data =
     (if truthy forecast_data then
        (case current_fields forecast_data of
           Inl e \<Rightarrow> ([], Inl e)
         | Inr (current_temp, weather_icon, precip_prob, wind_speed) \<Rightarrow>
             if current_temp \<noteq> PNone then
               ([Columns 3,
                 Metric 1 (''Temperature '' @ weather_icon)
                          (py_str (container_repr lib) current_temp @ degree_sign @ ''C''),
                 Metric 2 (''Wind Speed '' @ glyph_wind)
                          (py_str (container_repr lib) wind_speed @ '' km/h''),
                 Metric 3 (''Precipitation Chance '' @ glyph_droplet)
                          (py_str (container_repr lib) precip_prob @ ''%'')],
                Inr ())
             else ([Warning ''Could not retrieve current conditions.''], Inr ()))
      else ([Warning ''Could not retrieve forecast data.''], Inr ()))"

text \<open>
  The test \<^verbatim>\<open>block and 'time' in block\<close>: the membership test runs only on a block that
  is true.
\<close>

definition has_time_axis :: "pyval \<Rightarrow> pyerr + bool" where
  "has_time_axis block = (if truthy block then py_contains ''time'' block else Inr False)"

text \<open>The body of \<^verbatim>\<open>with tab2\<close>: the hourly forecast.\<close>

definition tab2 :: "'df library \<Rightarrow> pyval \<Rightarrow> ('df element, unit) run" where
  "tab2 lib forecast_data =
     (if truthy forecast_data then
        (case and_then (py_get forecast_data ''hourly'' (PDict [])) (\<lambda>hourly_data.
              and_then (has_time_axis hourly_data) (\<lambda>shown. Inr (hourly_data, shown)))
         of
           Inl e \<Rightarrow> ([], Inl e)
         | Inr (hourly_data, shown) \<Rightarrow>
             if shown then
               (case time_indexed_frame lib hourly_data of
                  Inl e \<Rightarrow> ([Subheader ''Forecast for the Next 24 Hours''], Inl e)
                | Inr hourly_df \<Rightarrow>
                    ([Subheader ''Forecast for the Next 24 Hours'',
                      LineChart hourly_df,
                      Expander ''View Hourly Data Table'' [Dataframe hourly_df]],
                     Inr ()))
             else ([Warning ''Could not retrieve hourly forecast data.''], Inr ()))
      else ([Warning ''Could not retrieve forecast data.''], Inr ()))"

text \<open>The body of \<^verbatim>\<open>with tab3\<close>: the last seven days.\<close>

definition tab3 :: "'df library \<Rightarrow> pyval \<Rightarrow> ('df element, unit) run" where
  "tab3 lib historical_data =
     (if truthy historical_data then
        (case and_then (py_get historical_data ''daily'' (PDict [])) (\<lambda>daily_data.
              and_then (has_time_axis daily_data) (\<lambda>shown. Inr (daily_data, shown)))
         of
           Inl e \<Rightarrow> ([], Inl e)
         | Inr (daily_data, shown) \<Rightarrow>
             if shown then
               (case and_then (time_indexed_frame lib daily_data) (\<lambda>historical_df.
                     and_then (temperature_columns lib historical_df) (\<lambda>temp_df.
                       Inr (historical_df, temp_df)))
                of
                  Inl e \<Rightarrow> ([Subheader ''Weather for the Last 7 Days''], Inl e)
                | Inr (historical_df, temp_df) \<Rightarrow>
                    ([Subheader ''Weather for the Last 7 Days'',
                      BarChart temp_df,
                      Expander ''View Historical Data Table'' [Dataframe historical_df]],
                     Inr ()))
             else ([Warning ''Could not retrieve historical data.''], Inr ()))
      else ([Warning ''Could not retrieve historical data.''], Inr ()))"

subsection \<open>The page\<close>

definition in_tab :: "nat \<Rightarrow> ('df element, 'a) run \<Rightarrow> ('df event, 'a) run" where
  "in_tab i r = (case r of (els, res) \<Rightarrow> (map (Show (Tab i)) els, res))"

text \<open>What the page shows once the coordinates are known.\<close>

definition show_weather ::
  "'df library \<Rightarrow> http \<Rightarrow> datetime \<Rightarrow> datetime \<Rightarrow> string \<Rightarrow> pyval \<Rightarrow> pyval \<Rightarrow> pyval
     \<Rightarrow> ('df event, unit) run" where
  "show_weather lib http_get now1 now2 city lat lon country =
     then_do ([Show Page (Subheader (''Weather for '' @ title_case lib city @ '', ''
                                    @ py_str (container_repr lib) country))], Inr ()) (\<lambda>_.
     then_do (fetch_weather_data http_get now1 lat lon False) (\<lambda>forecast_data.
     then_do (fetch_weather_data http_get now2 lat lon True) (\<lambda>historical_data.
     then_do ([Show Page (Tabs [''Current Conditions'', ''Hourly Forecast'',
                                ''Historical Data''])], Inr ()) (\<lambda>_.
     then_do (in_tab 1 (tab1 lib forecast_data)) (\<lambda>_.
     then_do (in_tab 2 (tab2 lib forecast_data)) (\<lambda>_.
       in_tab 3 (tab3 lib historical_data)))))))"

text \<open>
  One run of the script for the text \<open>city\<close> in the input box. \<open>now1\<close> and \<open>now2\<close> are the
  clock readings of the two calls of \<^verbatim>\<open>fetch_weather_data\<close>. The caches of
  \<^verbatim>\<open>st.cache_data\<close> are not modelled: every call is one that finds no cached value.
\<close>

definition main ::
  "'df library \<Rightarrow> http \<Rightarrow> datetime \<Rightarrow> datetime \<Rightarrow> string \<Rightarrow> ('df event, unit) run" where
  "main lib http_get now1 now2 city =
     then_do ([Show Page (Title ''Live Weather Forecast''),
               Show Page (TextInput ''Enter a city name:'' ''Lviv'')], Inr ()) (\<lambda>_.
       if city \<noteq> [] then
         then_do (get_coordinates http_get city) (\<lambda>(lat, lon, country).
           if lat \<noteq> PNone \<and> lon \<noteq> PNone then
             show_weather lib http_get now1 now2 city lat lon country
           else
             ([Show Page (ErrorMsg (''Could not find coordinates for '' @ [CHR 0x27] @ city
                 @ [CHR 0x27] @ ''. Please check the spelling or try a different city.''))],
              Inr ()))
       else ([], Inr ()))"

section \<open>Inputs used as examples\<close>

definition failing_http :: http where
  "failing_http url ps = RequestException ''connection refused''"

definition empty_results_http :: http where
  "empty_results_http url ps = Json (PDict [(''results'', PList [])])"

definition lviv_http :: http where
  "lviv_http url ps =
     Json (PDict [(''results'',
       PList [PDict [(''latitude'', PFloat ''49.84''), (''longitude'', PFloat ''24.03'')]])])"

definition no_library :: "unit library" where
  "no_library =
     \<lparr>container_repr = (\<lambda>v. []), title_case = (\<lambda>s. s),
      time_indexed_frame = (\<lambda>v. Inr ()), temperature_columns = (\<lambda>f. Inr ())\<rparr>"

definition noon :: datetime where
  "noon = \<lparr>year = 2024, month = 6, day = 15, microsecond_of_day = 43200000000\<rparr>"

definition is_weather_request :: "'df event \<Rightarrow> bool" where
  "is_weather_request ev = (case ev of Request url ps \<Rightarrow> url = WEATHER_API_URL | Show pl el \<Rightarrow> False)"

definition example_payload :: pyval where
  "example_payload =
     PDict [(''current'',
       PDict [(''temperature_2m'', PFloat ''21.5''), (''weather_code'', PInt 3),
              (''precipitation_probability'', PInt 10), (''wind_speed_10m'', PInt 12)])]"

definition temperature_only_payload :: pyval where
  "temperature_only_payload = PDict [(''current'', PDict [(''temperature_2m'', PInt 7)])]"

definition wind_only_payload :: pyval where
  "wind_only_payload = PDict [(''current'', PDict [(''wind_speed_10m'', PInt 12)])]"

definition dict_code_current :: "(string \<times> pyval) list" where
  "dict_code_current = [(''temperature_2m'', PFloat ''21.5''), (''weather_code'', PDict [])]"

definition list_code_payload :: pyval where
  "list_code_payload =
     PDict [(''current'', PDict [(''temperature_2m'', PFloat ''21.5''), (''weather_code'', PList [])])]"

section \<open>The calendar, as the specification reads it\<close>

text \<open>
  The Gregorian calendar in its own words, against which the ordinal arithmetic of the
  library model is checked: leap years, the length of each month, and the day before a
  date. \<open>days_ago k\<close> is the date \<open>k\<close> days earlier.
\<close>

definition leap_year :: "int \<Rightarrow> bool" where
  "leap_year y = (4 dvd y \<and> (\<not> 100 dvd y \<or> 400 dvd y))"

definition month_length :: "int \<Rightarrow> int \<Rightarrow> int" where
  "month_length y m =
     (if m = 2 then (if leap_year y then 29 else 28)
      else if m = 4 \<or> m = 6 \<or> m = 9 \<or> m = 11 then 30
      else 31)"

fun valid_date :: "int \<times> int \<times> int \<Rightarrow> bool" where
  "valid_date (y, m, d) =
     (1 \<le> y \<and> y \<le> 9999 \<and> 1 \<le> m \<and> m \<le> 12 \<and> 1 \<le> d \<and> d \<le> month_length y m)"

fun day_before :: "int \<times> int \<times> int \<Rightarrow> int \<times> int \<times> int" where
  "day_before (y, m, d) =
     (if 1 < d then (y, m, d - 1)
      else if 1 < m then (y, m - 1, month_length y (m - 1))
      else (y - 1, 12, 31))"

definition days_ago :: "nat \<Rightarrow> int \<times> int \<times> int \<Rightarrow> int \<times> int \<times> int" where
  "days_ago k date = (day_before ^^ k) date"

definition date_of :: "datetime \<Rightarrow> int \<times> int \<times> int" where
  "date_of t = (year t, month t, day t)"

definition ordinal_of :: "int \<times> int \<times> int \<Rightarrow> int" where
  "ordinal_of date = (case date of (y, m, d) \<Rightarrow> ymd2ord y m d)"


text \<open>
  A date written \<^verbatim>\<open>YYYY-MM-DD\<close>: the four decimal digits of the year, the two of the
  month and the two of the day, with hyphens between.
\<close>

definition decimal_digit :: "nat \<Rightarrow> char" where
  "decimal_digit k = char_of (48 + k)"

definition two_digits :: "nat \<Rightarrow> string" where
  "two_digits n = [decimal_digit (n div 10), decimal_digit (n mod 10)]"

definition four_digits :: "nat \<Rightarrow> string" where
  "four_digits n =
     [decimal_digit (n div 1000), decimal_digit (n div 100 mod 10),
      decimal_digit (n div 10 mod 10), decimal_digit (n mod 10)]"

fun iso_date :: "int \<times> int \<times> int \<Rightarrow> string" where
  "iso_date (y, m, d) = four_digits (nat y) @ ''-'' @ two_digits (nat m) @ ''-'' @ two_digits (nat d)"

text \<open>
  The shape of such a string: ten characters, digits but for the hyphens at positions 4
  and 7.
\<close>

definition is_digit :: "char \<Rightarrow> bool" where
  "is_digit c = (c \<in> set ''0123456789'')"

definition iso_date_shape :: "string \<Rightarrow> bool" where
  "iso_date_shape s =
     (length s = 10 \<and> list_all is_digit (take 4 s) \<and> s ! 4 = CHR ''-''
      \<and> list_all is_digit (take 2 (drop 5 s)) \<and> s ! 7 = CHR ''-''
      \<and> list_all is_digit (drop 8 s))"

definition last_day_of_999 :: datetime where
  "last_day_of_999 = \<lparr>year = 999, month = 12, day = 31, microsecond_of_day = 0\<rparr>"

definition third_day_of_year_1 :: datetime where
  "third_day_of_year_1 = \<lparr>year = 1, month = 1, day = 3, microsecond_of_day = 0\<rparr>"

definition march_first :: datetime where
  "march_first = \<lparr>year = 2024, month = 3, day = 1, microsecond_of_day = 0\<rparr>"

section \<open>Properties of the icon lookup\<close>

lemma int_dict_get_hashable:
  "hashable key \<Longrightarrow> \<exists>v. int_dict_get d key dflt = Inr v"
  by (simp add: int_dict_get_def split: option.split prod.split)

lemma int_dict_get_range:
  "int_dict_get d key dflt = Inr v \<Longrightarrow> v = dflt \<or> v \<in> snd ` set d"
  by (induction d) (auto simp: int_dict_get_def split: if_splits)

lemma int_dict_get_int:
  "int_dict_get d (PInt i) dflt = Inr (case map_of d i of Some v \<Rightarrow> v | None \<Rightarrow> dflt)"
  by (induction d) (auto simp: int_dict_get_def)

text \<open>
  Claim C4. The icon lookup is total on integers: every integer code, negative or outside
  the table, gets a glyph and no error, and that glyph is the table's entry for the code
  or the unknown glyph when there is none. Code 0 gives the sun, code 95 the thunderstorm
  and code 12345 the unknown glyph.
\<close>

theorem get_weather_icon_total_on_int:
  "(\<exists>g. get_weather_icon (PInt code) = Inr g \<and> g \<noteq> []
        \<and> g = (case map_of WEATHER_ICONS code of Some v \<Rightarrow> v | None \<Rightarrow> glyph_unknown))
   \<and> get_weather_icon (PInt 0) = Inr [CHR 0xE2, CHR 0x98, CHR 0x80, CHR 0xEF, CHR 0xB8, CHR 0x8F]
   \<and> get_weather_icon (PInt 95) = Inr [CHR 0xE2, CHR 0x9B, CHR 0x88, CHR 0xEF, CHR 0xB8, CHR 0x8F]
   \<and> get_weather_icon (PInt 12345) = Inr [CHR 0xE2, CHR 0x9D, CHR 0x93]"
proof -
  have nonempty: "\<forall>g \<in> snd ` set WEATHER_ICONS. g \<noteq> []"
    by (simp add: WEATHER_ICONS_def glyph_sun_def glyph_sun_small_cloud_def
        glyph_sun_behind_cloud_def glyph_cloud_def glyph_fog_def glyph_sun_rain_def
        glyph_cloud_snow_def glyph_cloud_rain_def glyph_snowflake_def glyph_thunder_def)
  have eq: "get_weather_icon (PInt code)
      = Inr (case map_of WEATHER_ICONS code of Some v \<Rightarrow> v | None \<Rightarrow> glyph_unknown)"
    by (simp add: get_weather_icon_def int_dict_get_int)
  have "(case map_of WEATHER_ICONS code of Some v \<Rightarrow> v | None \<Rightarrow> glyph_unknown) \<noteq> []"
  proof (cases "map_of WEATHER_ICONS code")
    case None
    then show ?thesis by (simp add: glyph_unknown_def)
  next
    case (Some v)
    then have "v \<in> snd ` set WEATHER_ICONS"
      by (auto dest: map_of_SomeD intro: rev_image_eqI)
    with nonempty Some show ?thesis by auto
  qed
  with eq have total: "\<exists>g. get_weather_icon (PInt code) = Inr g \<and> g \<noteq> []
        \<and> g = (case map_of WEATHER_ICONS code of Some v \<Rightarrow> v | None \<Rightarrow> glyph_unknown)"
    by simp
  have c0: "get_weather_icon (PInt 0) = Inr [CHR 0xE2, CHR 0x98, CHR 0x80, CHR 0xEF, CHR 0xB8, CHR 0x8F]"
    by (simp add: get_weather_icon_def int_dict_get_int WEATHER_ICONS_def glyph_sun_def
        variation_selector_def)
  have c95: "get_weather_icon (PInt 95) = Inr [CHR 0xE2, CHR 0x9B, CHR 0x88, CHR 0xEF, CHR 0xB8, CHR 0x8F]"
    by (simp add: get_weather_icon_def int_dict_get_int WEATHER_ICONS_def glyph_thunder_def
        variation_selector_def)
  have c12345: "get_weather_icon (PInt 12345) = Inr [CHR 0xE2, CHR 0x9D, CHR 0x93]"
    by (simp add: get_weather_icon_def int_dict_get_int WEATHER_ICONS_def glyph_unknown_def)
  from total c0 c95 c12345 show ?thesis by blast
qed

section \<open>Properties of the location lookup\<close>

lemma first_location_no_results:
  "map_of d ''results'' = Some (PList []) \<Longrightarrow> first_location (PDict d) = Inr (PNone, PNone, PNone)"
  by (simp add: first_location_def and_then_def)

lemma first_location_first_result:
  assumes "map_of d ''results'' = Some (PList (PDict loc # rest))"
    and "map_of loc ''latitude'' = Some la"
    and "map_of loc ''longitude'' = Some lo"
  shows "first_location (PDict d)
    = Inr (la, lo, case map_of loc ''country'' of Some c \<Rightarrow> c | None \<Rightarrow> PStr [])"
  using assms by (simp add: first_location_def and_then_def)

text \<open>
  Claim C1, as amended. When the geocoding request fails with a \<^verbatim>\<open>RequestException\<close>,
  \<^verbatim>\<open>get_coordinates\<close> shows the error message "Error during geocoding: " followed by the
  cause and returns the triple of three \<^verbatim>\<open>None\<close>. That return value carries no cause and
  is the one returned for an empty results list: the two outcomes differ only in the
  message shown.
\<close>

theorem get_coordinates_request_failure:
  "http_get GEOCODING_API_URL [(''name'', PStr city), (''count'', PInt 1)] = RequestException cause
   \<Longrightarrow> get_coordinates http_get city
         = ([Request GEOCODING_API_URL [(''name'', PStr city), (''count'', PInt 1)],
             Show Page (ErrorMsg (''Error during geocoding: '' @ cause))],
            Inr (PNone, PNone, PNone))
       \<and> first_location (PDict [(''results'', PList [])]) = Inr (PNone, PNone, PNone)"
  by (simp add: get_coordinates_def first_location_no_results)

theorem get_coordinates_request_failure_witness:
  "(get_coordinates failing_http ''Lviv'' :: (unit event, pyval \<times> pyval \<times> pyval) run)
     = ([Request GEOCODING_API_URL [(''name'', PStr ''Lviv''), (''count'', PInt 1)],
         Show Page (ErrorMsg ''Error during geocoding: connection refused'')],
        Inr (PNone, PNone, PNone))"
proof -
  have "(get_coordinates failing_http ''Lviv'' :: (unit event, pyval \<times> pyval \<times> pyval) run)
      = ([Request GEOCODING_API_URL [(''name'', PStr ''Lviv''), (''count'', PInt 1)],
          Show Page (ErrorMsg (''Error during geocoding: '' @ ''connection refused''))],
         Inr (PNone, PNone, PNone))
    \<and> first_location (PDict [(''results'', PList [])]) = Inr (PNone, PNone, PNone)"
    by (rule get_coordinates_request_failure) (simp add: failing_http_def)
  then show ?thesis by simp
qed

text \<open>
  The claim as stated fails: after a refused connection \<^verbatim>\<open>get_coordinates\<close> returns the
  same value as for an empty results list.
\<close>

theorem failure_and_not_found_return_the_same:
  "snd (get_coordinates failing_http ''Lviv'' :: (unit event, pyval \<times> pyval \<times> pyval) run)
     = Inr (PNone, PNone, PNone)
   \<and> snd (get_coordinates empty_results_http ''Lviv'' :: (unit event, pyval \<times> pyval \<times> pyval) run)
     = snd (get_coordinates failing_http ''Lviv'' :: (unit event, pyval \<times> pyval \<times> pyval) run)"
  by (simp add: get_coordinates_def failing_http_def empty_results_http_def
      first_location_no_results)

lemma urls_differ: "GEOCODING_API_URL \<noteq> WEATHER_API_URL"
  by (simp add: GEOCODING_API_URL_def WEATHER_API_URL_def)

text \<open>
  Claim C2. When the geocoding response has an empty results list, \<^verbatim>\<open>get_coordinates\<close>
  returns the triple of three \<^verbatim>\<open>None\<close> and raises nothing, and the run of the page
  consists of the title, the input box, the geocoding request and the message that the
  city was not found: it ends without an exception and contains no request to the
  weather service.
\<close>

theorem empty_results_not_found:
  assumes "city \<noteq> []"
    and "http_get GEOCODING_API_URL [(''name'', PStr city), (''count'', PInt 1)] = Json (PDict d)"
    and "map_of d ''results'' = Some (PList [])"
  shows "(get_coordinates http_get city :: ('df event, pyval \<times> pyval \<times> pyval) run)
           = ([Request GEOCODING_API_URL [(''name'', PStr city), (''count'', PInt 1)]],
              Inr (PNone, PNone, PNone))
       \<and> main (lib :: 'df library) http_get now1 now2 city
           = ([Show Page (Title ''Live Weather Forecast''),
               Show Page (TextInput ''Enter a city name:'' ''Lviv''),
               Request GEOCODING_API_URL [(''name'', PStr city), (''count'', PInt 1)],
               Show Page (ErrorMsg (''Could not find coordinates for '' @ [CHR 0x27] @ city
                 @ [CHR 0x27] @ ''. Please check the spelling or try a different city.''))],
              Inr ())
       \<and> filter is_weather_request (fst (main lib http_get now1 now2 city)) = []"
proof -
  have coords: "get_coordinates http_get city
      = ([Request GEOCODING_API_URL [(''name'', PStr city), (''count'', PInt 1)]],
         Inr (PNone, PNone, PNone))"
    using assms(2,3) by (simp add: get_coordinates_def first_location_no_results)
  have page: "main lib http_get now1 now2 city
      = ([Show Page (Title ''Live Weather Forecast''),
          Show Page (TextInput ''Enter a city name:'' ''Lviv''),
          Request GEOCODING_API_URL [(''name'', PStr city), (''count'', PInt 1)],
          Show Page (ErrorMsg (''Could not find coordinates for '' @ [CHR 0x27] @ city
            @ [CHR 0x27] @ ''. Please check the spelling or try a different city.''))],
         Inr ())"
    using assms(1) by (simp add: main_def then_do_def coords)
  have "filter is_weather_request (fst (main lib http_get now1 now2 city)) = []"
    by (simp add: page is_weather_request_def urls_differ)
  with coords page show ?thesis by simp
qed

theorem empty_results_not_found_witness:
  "filter is_weather_request (fst (main no_library empty_results_http noon noon ''Atlantis'')) = []
   \<and> snd (main no_library empty_results_http noon noon ''Atlantis'') = Inr ()
   \<and> snd (get_coordinates empty_results_http ''Atlantis'' :: (unit event, pyval \<times> pyval \<times> pyval) run)
       = Inr (PNone, PNone, PNone)"
proof -
  have "(get_coordinates empty_results_http ''Atlantis'' :: (unit event, pyval \<times> pyval \<times> pyval) run)
           = ([Request GEOCODING_API_URL [(''name'', PStr ''Atlantis''), (''count'', PInt 1)]],
              Inr (PNone, PNone, PNone))
       \<and> main no_library empty_results_http noon noon ''Atlantis''
           = ([Show Page (Title ''Live Weather Forecast''),
               Show Page (TextInput ''Enter a city name:'' ''Lviv''),
               Request GEOCODING_API_URL [(''name'', PStr ''Atlantis''), (''count'', PInt 1)],
               Show Page (ErrorMsg (''Could not find coordinates for '' @ [CHR 0x27] @ ''Atlantis''
                 @ [CHR 0x27] @ ''. Please check the spelling or try a different city.''))],
              Inr ())
       \<and> filter is_weather_request (fst (main no_library empty_results_http noon noon ''Atlantis'')) = []"
    by (rule empty_results_not_found [where d = "[(''results'', PList [])]"])
       (simp_all add: empty_results_http_def)
  then show ?thesis by (simp add: is_weather_request_def urls_differ)
qed

text \<open>
  Claim C5. When the geocoding response has at least one result and the first result is
  an object with a latitude and a longitude, \<^verbatim>\<open>get_coordinates\<close> returns exactly that
  latitude, that longitude and the result's country, or the empty string when the result
  has no country. The response with the single result (49.84, 24.03, "Ukraine") gives
  exactly that triple.
\<close>

theorem get_coordinates_first_result:
  "(http_get GEOCODING_API_URL [(''name'', PStr city), (''count'', PInt 1)] = Json (PDict d)
      \<and> map_of d ''results'' = Some (PList (PDict loc # rest))
      \<and> map_of loc ''latitude'' = Some la
      \<and> map_of loc ''longitude'' = Some lo
    \<longrightarrow> get_coordinates http_get city
          = ([Request GEOCODING_API_URL [(''name'', PStr city), (''count'', PInt 1)]],
             Inr (la, lo, case map_of loc ''country'' of Some c \<Rightarrow> c | None \<Rightarrow> PStr [])))
   \<and> first_location
        (PDict [(''results'',
           PList [PDict [(''latitude'', PFloat ''49.84''), (''longitude'', PFloat ''24.03''),
                         (''country'', PStr ''Ukraine'')]])])
       = Inr (PFloat ''49.84'', PFloat ''24.03'', PStr ''Ukraine'')"
  by (simp add: get_coordinates_def first_location_first_result)

theorem get_coordinates_first_result_witness:
  "(get_coordinates lviv_http ''Lviv'' :: (unit event, pyval \<times> pyval \<times> pyval) run)
     = ([Request GEOCODING_API_URL [(''name'', PStr ''Lviv''), (''count'', PInt 1)]],
        Inr (PFloat ''49.84'', PFloat ''24.03'', PStr []))"
proof -
  have "(lviv_http GEOCODING_API_URL [(''name'', PStr ''Lviv''), (''count'', PInt 1)]
          = Json (PDict [(''results'', PList [PDict [(''latitude'', PFloat ''49.84''),
                                                    (''longitude'', PFloat ''24.03'')]])])
      \<and> map_of [(''results'', PList [PDict [(''latitude'', PFloat ''49.84''),
                                            (''longitude'', PFloat ''24.03'')]])] ''results''
          = Some (PList [PDict [(''latitude'', PFloat ''49.84''),
                                (''longitude'', PFloat ''24.03'')]])
      \<and> map_of [(''latitude'', PFloat ''49.84''), (''longitude'', PFloat ''24.03'')] ''latitude''
          = Some (PFloat ''49.84'')
      \<and> map_of [(''latitude'', PFloat ''49.84''), (''longitude'', PFloat ''24.03'')] ''longitude''
          = Some (PFloat ''24.03'')
    \<longrightarrow> (get_coordinates lviv_http ''Lviv'' :: (unit event, pyval \<times> pyval \<times> pyval) run)
          = ([Request GEOCODING_API_URL [(''name'', PStr ''Lviv''), (''count'', PInt 1)]],
             Inr (PFloat ''49.84'', PFloat ''24.03'',
                  case map_of [(''latitude'', PFloat ''49.84''), (''longitude'', PFloat ''24.03'')]
                         ''country'' of Some c \<Rightarrow> c | None \<Rightarrow> PStr [])))"
    by (rule get_coordinates_first_result [THEN conjunct1])
  then show ?thesis by (simp add: lviv_http_def)
qed

section \<open>Properties of the weather request\<close>

text \<open>
  Claim C8. In current mode the query parameters are exactly latitude, longitude, the
  four current fields, the three hourly fields and forecast_days = 1, for every pair of
  coordinates and every clock reading, and the request sent to the weather service
  carries exactly these parameters.
\<close>

theorem current_mode_params:
  "weather_params today lat lon False
     = Inr [(''latitude'', lat), (''longitude'', lon),
            (''current'', PStr ''temperature_2m,weather_code,precipitation_probability,wind_speed_10m''),
            (''hourly'', PStr ''temperature_2m,precipitation_probability,wind_speed_10m''),
            (''forecast_days'', PInt 1)]
   \<and> (\<exists>rest r. fetch_weather_data http_get today lat lon False
         = (Request WEATHER_API_URL
              [(''latitude'', lat), (''longitude'', lon),
               (''current'', PStr ''temperature_2m,weather_code,precipitation_probability,wind_speed_10m''),
               (''hourly'', PStr ''temperature_2m,precipitation_probability,wind_speed_10m''),
               (''forecast_days'', PInt 1)] # rest, r)
         \<and> filter is_weather_request rest = [])"
proof -
  have ps: "weather_params today lat lon False
     = Inr [(''latitude'', lat), (''longitude'', lon),
            (''current'', PStr ''temperature_2m,weather_code,precipitation_probability,wind_speed_10m''),
            (''hourly'', PStr ''temperature_2m,precipitation_probability,wind_speed_10m''),
            (''forecast_days'', PInt 1)]"
    by (simp add: weather_params_def)
  show ?thesis
    unfolding fetch_weather_data_def ps
    by (cases "http_get WEATHER_API_URL
          [(''latitude'', lat), (''longitude'', lon),
           (''current'', PStr ''temperature_2m,weather_code,precipitation_probability,wind_speed_10m''),
           (''hourly'', PStr ''temperature_2m,precipitation_probability,wind_speed_10m''),
           (''forecast_days'', PInt 1)]")
       (simp_all add: is_weather_request_def)
qed

section \<open>Properties of the tabs\<close>

lemma get_weather_icon_None: "get_weather_icon PNone = Inr glyph_unknown"
  by (simp add: get_weather_icon_def int_dict_get_def WEATHER_ICONS_def)

lemma get_weather_icon_hashable: "hashable k \<Longrightarrow> \<exists>g. get_weather_icon k = Inr g"
  unfolding get_weather_icon_def by (rule int_dict_get_hashable)

lemma current_fields_dict:
  assumes "map_of p ''current'' = Some (PDict c)"
    and "get_weather_icon (case map_of c ''weather_code'' of Some w \<Rightarrow> w | None \<Rightarrow> PNone) = Inr icon"
  shows "current_fields (PDict p)
    = Inr (case map_of c ''temperature_2m'' of Some t \<Rightarrow> t | None \<Rightarrow> PNone,
           icon,
           case map_of c ''precipitation_probability'' of Some v \<Rightarrow> v | None \<Rightarrow> PNone,
           case map_of c ''wind_speed_10m'' of Some v \<Rightarrow> v | None \<Rightarrow> PNone)"
  using assms by (simp add: current_fields_def and_then_def)

lemma tab1_metrics:
  assumes "map_of p ''current'' = Some (PDict c)"
    and "map_of c ''temperature_2m'' = Some t" and "t \<noteq> PNone"
    and "get_weather_icon (case map_of c ''weather_code'' of Some w \<Rightarrow> w | None \<Rightarrow> PNone) = Inr icon"
  shows "tab1 lib (PDict p)
    = ([Columns 3,
        Metric 1 (''Temperature '' @ icon) (py_str (container_repr lib) t @ degree_sign @ ''C''),
        Metric 2 (''Wind Speed '' @ glyph_wind)
          (py_str (container_repr lib)
             (case map_of c ''wind_speed_10m'' of Some v \<Rightarrow> v | None \<Rightarrow> PNone) @ '' km/h''),
        Metric 3 (''Precipitation Chance '' @ glyph_droplet)
          (py_str (container_repr lib)
             (case map_of c ''precipitation_probability'' of Some v \<Rightarrow> v | None \<Rightarrow> PNone) @ ''%'')],
       Inr ())"
proof -
  from assms(1) have "p \<noteq> []" by auto
  then show ?thesis
    using assms(2,3) by (simp add: tab1_def current_fields_dict [OF assms(1,4)])
qed

text \<open>
  Claim C6. For the payload whose current block has temperature 21.5, weather code 3,
  precipitation probability 10 and wind speed 12, the first tab shows three metrics:
  the temperature "21.5" followed by the degree sign and "C" under the label
  "Temperature" with the cloud glyph, the wind speed "12 km/h" and the precipitation
  chance "10%".
\<close>

theorem tab1_example_payload:
  "tab1 lib
     (PDict [(''current'',
        PDict [(''temperature_2m'', PFloat ''21.5''), (''weather_code'', PInt 3),
               (''precipitation_probability'', PInt 10), (''wind_speed_10m'', PInt 12)])])
   = ([Columns 3,
       Metric 1 (''Temperature '' @ [CHR 0xE2, CHR 0x98, CHR 0x81, CHR 0xEF, CHR 0xB8, CHR 0x8F])
                (''21.5'' @ [CHR 0xC2, CHR 0xB0] @ ''C''),
       Metric 2 (''Wind Speed '' @ [CHR 0xF0, CHR 0x9F, CHR 0x92, CHR 0xA8]) ''12 km/h'',
       Metric 3 (''Precipitation Chance '' @ [CHR 0xF0, CHR 0x9F, CHR 0x92, CHR 0xA7]) ''10%''],
      Inr ())"
proof -
  have icon: "get_weather_icon (PInt 3) = Inr glyph_cloud"
    by (simp add: get_weather_icon_def int_dict_get_int WEATHER_ICONS_def)
  have twelve: "str_int 12 = ''12''" and ten: "str_int 10 = ''10''"
    by (simp_all add: str_int_def str_nat.simps digit_char_def)
  show ?thesis
    by (simp add: tab1_def current_fields_def and_then_def icon twelve ten glyph_cloud_def
        variation_selector_def degree_sign_def glyph_wind_def glyph_droplet_def)
qed

text \<open>
  Claim C7. For every forecast payload that is a JSON object without the key
  \<^verbatim>\<open>hourly\<close>, or whose hourly block is an object without the key \<^verbatim>\<open>time\<close>, the second tab
  shows exactly one warning and raises nothing: "Could not retrieve forecast data." for
  the empty object, "Could not retrieve hourly forecast data." otherwise.
\<close>

theorem tab2_warning_without_hourly:
  assumes "map_of p ''hourly'' = None
           \<or> (\<exists>h. map_of p ''hourly'' = Some (PDict h) \<and> map_of h ''time'' = None)"
  shows "tab2 lib (PDict p)
    = ([Warning (if p = [] then ''Could not retrieve forecast data.''
                 else ''Could not retrieve hourly forecast data.'')],
       Inr ())"
  using assms
  by (cases "p = []") (auto simp: tab2_def has_time_axis_def and_then_def)

theorem tab2_warning_without_hourly_witness:
  "tab2 no_library example_payload
     = ([Warning ''Could not retrieve hourly forecast data.''], Inr ())
   \<and> tab2 no_library (PDict [(''hourly'', PDict [(''temperature_2m'', PList [PInt 7])])])
     = ([Warning ''Could not retrieve hourly forecast data.''], Inr ())"
proof -
  have "tab2 no_library (PDict [(''current'',
       PDict [(''temperature_2m'', PFloat ''21.5''), (''weather_code'', PInt 3),
              (''precipitation_probability'', PInt 10), (''wind_speed_10m'', PInt 12)])])
     = ([Warning (if [(''current'',
       PDict [(''temperature_2m'', PFloat ''21.5''), (''weather_code'', PInt 3),
              (''precipitation_probability'', PInt 10), (''wind_speed_10m'', PInt 12)])] = []
          then ''Could not retrieve forecast data.''
          else ''Could not retrieve hourly forecast data.'')], Inr ())"
    by (rule tab2_warning_without_hourly) simp
  moreover
  have "tab2 no_library (PDict [(''hourly'', PDict [(''temperature_2m'', PList [PInt 7])])])
     = ([Warning (if [(''hourly'', PDict [(''temperature_2m'', PList [PInt 7])])] = []
          then ''Could not retrieve forecast data.''
          else ''Could not retrieve hourly forecast data.'')], Inr ())"
    by (rule tab2_warning_without_hourly) simp
  ultimately show ?thesis by (simp add: example_payload_def)
qed

text \<open>
  Claim C9, as amended. In the first tab, once the icon lookup has a key it can hash
  (the weather code is absent or a scalar), rendering is gated solely on the
  temperature: for every forecast payload whose current block is an object, the tab
  shows the three metrics exactly when the block has a temperature other than
  \<^verbatim>\<open>None\<close>, and the warning "Could not retrieve current conditions." otherwise. With
  a temperature the metrics are shown whatever else the block lacks: a missing wind
  speed reads "None km/h" and a missing precipitation probability "None%".
\<close>

theorem tab1_gated_on_temperature:
  assumes "map_of p ''current'' = Some (PDict c)"
    and "hashable (case map_of c ''weather_code'' of Some w \<Rightarrow> w | None \<Rightarrow> PNone)"
  shows "\<exists>icon.
      get_weather_icon (case map_of c ''weather_code'' of Some w \<Rightarrow> w | None \<Rightarrow> PNone) = Inr icon
      \<and> tab1 lib (PDict p)
        = (if map_of c ''temperature_2m'' = None \<or> map_of c ''temperature_2m'' = Some PNone
           then ([Warning ''Could not retrieve current conditions.''], Inr ())
           else ([Columns 3,
                  Metric 1 (''Temperature '' @ icon)
                    (py_str (container_repr lib) (the (map_of c ''temperature_2m''))
                       @ degree_sign @ ''C''),
                  Metric 2 (''Wind Speed '' @ glyph_wind)
                    (case map_of c ''wind_speed_10m'' of
                       None \<Rightarrow> ''None km/h''
                     | Some v \<Rightarrow> py_str (container_repr lib) v @ '' km/h''),
                  Metric 3 (''Precipitation Chance '' @ glyph_droplet)
                    (case map_of c ''precipitation_probability'' of
                       None \<Rightarrow> ''None%''
                     | Some v \<Rightarrow> py_str (container_repr lib) v @ ''%'')],
                 Inr ()))"
proof -
  from get_weather_icon_hashable [OF assms(2)] obtain icon where
    icon: "get_weather_icon (case map_of c ''weather_code'' of Some w \<Rightarrow> w | None \<Rightarrow> PNone) = Inr icon"
    by blast
  from assms(1) have p: "p \<noteq> []" by auto
  have fields: "current_fields (PDict p)
    = Inr (case map_of c ''temperature_2m'' of Some t \<Rightarrow> t | None \<Rightarrow> PNone,
           icon,
           case map_of c ''precipitation_probability'' of Some v \<Rightarrow> v | None \<Rightarrow> PNone,
           case map_of c ''wind_speed_10m'' of Some v \<Rightarrow> v | None \<Rightarrow> PNone)"
    using assms(1) icon by (rule current_fields_dict)
  have "tab1 lib (PDict p)
        = (if map_of c ''temperature_2m'' = None \<or> map_of c ''temperature_2m'' = Some PNone
           then ([Warning ''Could not retrieve current conditions.''], Inr ())
           else ([Columns 3,
                  Metric 1 (''Temperature '' @ icon)
                    (py_str (container_repr lib) (the (map_of c ''temperature_2m''))
                       @ degree_sign @ ''C''),
                  Metric 2 (''Wind Speed '' @ glyph_wind)
                    (case map_of c ''wind_speed_10m'' of
                       None \<Rightarrow> ''None km/h''
                     | Some v \<Rightarrow> py_str (container_repr lib) v @ '' km/h''),
                  Metric 3 (''Precipitation Chance '' @ glyph_droplet)
                    (case map_of c ''precipitation_probability'' of
                       None \<Rightarrow> ''None%''
                     | Some v \<Rightarrow> py_str (container_repr lib) v @ ''%'')],
                 Inr ()))"
    using p by (auto simp: tab1_def fields split: option.splits)
  with icon show ?thesis by blast
qed

theorem tab1_gated_on_temperature_witness:
  "tab1 no_library temperature_only_payload
     = ([Columns 3,
         Metric 1 (''Temperature '' @ glyph_unknown) (''7'' @ degree_sign @ ''C''),
         Metric 2 (''Wind Speed '' @ glyph_wind) ''None km/h'',
         Metric 3 (''Precipitation Chance '' @ glyph_droplet) ''None%''],
        Inr ())
   \<and> tab1 no_library wind_only_payload
     = ([Warning ''Could not retrieve current conditions.''], Inr ())"
proof -
  have seven: "str_int 7 = ''7''"
    by (simp add: str_int_def str_nat.simps digit_char_def)
  have "hashable (case map_of [(''temperature_2m'', PInt 7)] ''weather_code'' of
      Some w \<Rightarrow> w | None \<Rightarrow> PNone)"
    by simp
  from tab1_gated_on_temperature [of "[(''current'', PDict [(''temperature_2m'', PInt 7)])]"
      "[(''temperature_2m'', PInt 7)]" no_library, OF _ this]
  have first: "tab1 no_library temperature_only_payload
     = ([Columns 3,
         Metric 1 (''Temperature '' @ glyph_unknown) (''7'' @ degree_sign @ ''C''),
         Metric 2 (''Wind Speed '' @ glyph_wind) ''None km/h'',
         Metric 3 (''Precipitation Chance '' @ glyph_droplet) ''None%''],
        Inr ())"
    by (auto simp: temperature_only_payload_def get_weather_icon_None seven)
  have "hashable (case map_of [(''wind_speed_10m'', PInt 12)] ''weather_code'' of
      Some w \<Rightarrow> w | None \<Rightarrow> PNone)"
    by simp
  from tab1_gated_on_temperature [of "[(''current'', PDict [(''wind_speed_10m'', PInt 12)])]"
      "[(''wind_speed_10m'', PInt 12)]" no_library, OF _ this]
  have second: "tab1 no_library wind_only_payload
     = ([Warning ''Could not retrieve current conditions.''], Inr ())"
    by (auto simp: wind_only_payload_def)
  from first second show ?thesis ..
qed

text \<open>
  The claim as stated fails: a payload whose current block has a temperature and
  neither wind speed nor precipitation probability, and whose weather code is an object,
  gets no metrics. The icon lookup, which runs before the test on the temperature,
  raises \<^verbatim>\<open>TypeError\<close>.
\<close>

theorem tab1_unhashable_code_raises:
  "map_of dict_code_current ''temperature_2m'' = Some (PFloat ''21.5'')
   \<and> map_of dict_code_current ''wind_speed_10m'' = None
   \<and> map_of dict_code_current ''precipitation_probability'' = None
   \<and> tab1 no_library (PDict [(''current'', PDict dict_code_current)]) = ([], Inl TypeError)"
  by (simp add: dict_code_current_def tab1_def current_fields_def and_then_def
      get_weather_icon_def int_dict_get_def)

text \<open>
  Claim C10, as amended. The icon lookup is total over the hashable lookup keys
  (\<^verbatim>\<open>None\<close>, booleans, numbers and strings), not only over integers. Applied to
  \<^verbatim>\<open>None\<close> it returns the unknown glyph, so for a payload whose current block has a
  temperature and no weather code the first tab shows its metrics with the label
  "Temperature" followed by the unknown glyph.
\<close>

theorem get_weather_icon_total_on_hashable:
  "(hashable k \<longrightarrow> (\<exists>g. get_weather_icon k = Inr g
                          \<and> (g = glyph_unknown \<or> g \<in> snd ` set WEATHER_ICONS)))
   \<and> get_weather_icon PNone = Inr [CHR 0xE2, CHR 0x9D, CHR 0x93]
   \<and> (map_of p ''current'' = Some (PDict c) \<and> map_of c ''temperature_2m'' = Some t \<and> t \<noteq> PNone
        \<and> map_of c ''weather_code'' = None
      \<longrightarrow> (\<exists>wind precip.
            tab1 lib (PDict p)
              = ([Columns 3,
                  Metric 1 (''Temperature '' @ [CHR 0xE2, CHR 0x9D, CHR 0x93])
                           (py_str (container_repr lib) t @ degree_sign @ ''C''),
                  Metric 2 (''Wind Speed '' @ glyph_wind) wind,
                  Metric 3 (''Precipitation Chance '' @ glyph_droplet) precip],
                 Inr ())))"
proof -
  have total: "hashable k \<longrightarrow> (\<exists>g. get_weather_icon k = Inr g
                          \<and> (g = glyph_unknown \<or> g \<in> snd ` set WEATHER_ICONS))"
  proof
    assume "hashable k"
    then obtain g where g: "get_weather_icon k = Inr g"
      using get_weather_icon_hashable by blast
    then have "g = glyph_unknown \<or> g \<in> snd ` set WEATHER_ICONS"
      unfolding get_weather_icon_def by (rule int_dict_get_range)
    with g show "\<exists>g. get_weather_icon k = Inr g
        \<and> (g = glyph_unknown \<or> g \<in> snd ` set WEATHER_ICONS)"
      by blast
  qed
  have none: "get_weather_icon PNone = Inr [CHR 0xE2, CHR 0x9D, CHR 0x93]"
    by (simp add: get_weather_icon_None glyph_unknown_def)
  have view: "map_of p ''current'' = Some (PDict c) \<and> map_of c ''temperature_2m'' = Some t
        \<and> t \<noteq> PNone \<and> map_of c ''weather_code'' = None
      \<longrightarrow> (\<exists>wind precip.
            tab1 lib (PDict p)
              = ([Columns 3,
                  Metric 1 (''Temperature '' @ [CHR 0xE2, CHR 0x9D, CHR 0x93])
                           (py_str (container_repr lib) t @ degree_sign @ ''C''),
                  Metric 2 (''Wind Speed '' @ glyph_wind) wind,
                  Metric 3 (''Precipitation Chance '' @ glyph_droplet) precip],
                 Inr ()))"
  proof
    assume a: "map_of p ''current'' = Some (PDict c) \<and> map_of c ''temperature_2m'' = Some t
        \<and> t \<noteq> PNone \<and> map_of c ''weather_code'' = None"
    then have icon: "get_weather_icon
        (case map_of c ''weather_code'' of Some w \<Rightarrow> w | None \<Rightarrow> PNone)
        = Inr [CHR 0xE2, CHR 0x9D, CHR 0x93]"
      by (simp add: none)
    from a have "map_of p ''current'' = Some (PDict c)" "map_of c ''temperature_2m'' = Some t"
      "t \<noteq> PNone" by simp_all
    from tab1_metrics [OF this icon, of lib]
    show "\<exists>wind precip.
            tab1 lib (PDict p)
              = ([Columns 3,
                  Metric 1 (''Temperature '' @ [CHR 0xE2, CHR 0x9D, CHR 0x93])
                           (py_str (container_repr lib) t @ degree_sign @ ''C''),
                  Metric 2 (''Wind Speed '' @ glyph_wind) wind,
                  Metric 3 (''Precipitation Chance '' @ glyph_droplet) precip],
                 Inr ())"
      by blast
  qed
  from total none view show ?thesis by blast
qed

theorem get_weather_icon_total_on_hashable_witness:
  "hashable (PStr ''fog'')
   \<and> (\<exists>g. get_weather_icon (PStr ''fog'') = Inr g
          \<and> (g = glyph_unknown \<or> g \<in> snd ` set WEATHER_ICONS))
   \<and> (\<exists>wind precip.
        tab1 no_library temperature_only_payload
          = ([Columns 3,
              Metric 1 (''Temperature '' @ [CHR 0xE2, CHR 0x9D, CHR 0x93])
                       (py_str (container_repr no_library) (PInt 7) @ degree_sign @ ''C''),
              Metric 2 (''Wind Speed '' @ glyph_wind) wind,
              Metric 3 (''Precipitation Chance '' @ glyph_droplet) precip],
             Inr ()))"
  using get_weather_icon_total_on_hashable [of "PStr ''fog''"
      "[(''current'', PDict [(''temperature_2m'', PInt 7)])]" "[(''temperature_2m'', PInt 7)]"
      "PInt 7" no_library]
  by (simp add: temperature_only_payload_def)

text \<open>
  The claim as stated fails: a list is not hashable, so the lookup raises \<^verbatim>\<open>TypeError\<close>
  for it, and so does the first tab for a payload whose weather code is a list.
\<close>

theorem get_weather_icon_list_key_raises:
  "get_weather_icon (PList []) = Inl TypeError
   \<and> tab1 no_library list_code_payload = ([], Inl TypeError)"
  by (simp add: get_weather_icon_def int_dict_get_def tab1_def current_fields_def and_then_def
      list_code_payload_def)

section \<open>The library's date arithmetic against the calendar\<close>

lemma is_leap_iff: "is_leap y = leap_year y"
  unfolding is_leap_def leap_year_def by (simp add: dvd_eq_mod_eq_0)

lemma months_list: "[1..12::int] = [1, 2, 3, 4, 5, 6, 7, 8, 9, 10, 11, 12]"
  by code_simp

lemma month_disj:
  assumes "1 \<le> m" "m \<le> 12"
  shows "m = 1 \<or> m = 2 \<or> m = 3 \<or> m = 4 \<or> m = 5 \<or> m = 6
       \<or> m = 7 \<or> m = 8 \<or> m = 9 \<or> m = 10 \<or> m = 11 \<or> m = (12::int)"
proof -
  from assms have "m \<in> set [1..12]" by simp
  then have "m \<in> set [1, 2, 3, 4, 5, 6, 7, 8, 9, 10, 11, 12::int]" by (simp only: months_list)
  then show ?thesis by simp
qed

lemma days_in_month_eq:
  assumes "1 \<le> m" "m \<le> 12"
  shows "days_in_month y m = month_length y m"
  using month_disj [OF assms]
  by (elim disjE) (simp_all add: days_in_month_def month_length_def DAYS_IN_MONTH_def is_leap_iff)

lemma days_before_month_step:
  assumes "2 \<le> m" "m \<le> 12"
  shows "days_before_month y m = days_before_month y (m - 1) + month_length y (m - 1)"
proof -
  from assms have "1 \<le> m" by simp
  from month_disj [OF this assms(2)] assms(1) show ?thesis
    by (elim disjE)
       (simp_all add: days_before_month_def month_length_def DAYS_BEFORE_MONTH_def is_leap_iff)
qed

lemma month_table_leap:
  "list_all (\<lambda>m. list_all (\<lambda>d. month_and_day True (days_before_month 4 m + d - 1) = (m, d))
                          [1..days_in_month 4 m]) [1..12]"
  by code_simp

lemma month_table_common:
  "list_all (\<lambda>m. list_all (\<lambda>d. month_and_day False (days_before_month 1 m + d - 1) = (m, d))
                          [1..days_in_month 1 m]) [1..12]"
  by code_simp

lemma is_leap_4: "is_leap 4" and not_is_leap_1: "\<not> is_leap 1"
  by (simp_all add: is_leap_def)

lemma days_before_month_leap: "is_leap y \<Longrightarrow> days_before_month y m = days_before_month 4 m"
  and days_in_month_leap: "is_leap y \<Longrightarrow> days_in_month y m = days_in_month 4 m"
  and days_before_month_common: "\<not> is_leap y \<Longrightarrow> days_before_month y m = days_before_month 1 m"
  and days_in_month_common: "\<not> is_leap y \<Longrightarrow> days_in_month y m = days_in_month 1 m"
  by (simp_all add: days_before_month_def days_in_month_def is_leap_4 not_is_leap_1)

lemma month_and_day_inverse:
  assumes "1 \<le> m" "m \<le> 12" "1 \<le> d" "d \<le> days_in_month y m"
  shows "month_and_day (is_leap y) (days_before_month y m + d - 1) = (m, d)"
proof (cases "is_leap y")
  case True
  from assms(1,2) have m: "m \<in> set [1..12]" by simp
  from assms(3,4) True have d: "d \<in> set [1..days_in_month 4 m]"
    by (simp add: days_in_month_leap)
  from month_table_leap m d
  have "month_and_day True (days_before_month 4 m + d - 1) = (m, d)"
    unfolding list_all_iff by blast
  with True show ?thesis by (simp add: days_before_month_leap)
next
  case False
  from assms(1,2) have m: "m \<in> set [1..12]" by simp
  from assms(3,4) False have d: "d \<in> set [1..days_in_month 1 m]"
    by (simp add: days_in_month_common)
  from month_table_common m d
  have "month_and_day False (days_before_month 1 m + d - 1) = (m, d)"
    unfolding list_all_iff by blast
  with False show ?thesis by (simp add: days_before_month_common)
qed

lemma day_of_year_bounds:
  assumes "1 \<le> m" "m \<le> 12" "1 \<le> d" "d \<le> days_in_month y m"
  shows "0 \<le> days_before_month y m + d - 1"
    and "days_before_month y m + d - 1 \<le> (if is_leap y then 365 else 364)"
  using month_disj [OF assms(1,2)] assms(3,4)
  by (auto simp: days_before_month_def days_in_month_def DAYS_BEFORE_MONTH_def DAYS_IN_MONTH_def
      split: if_splits)

lemma divmod_unique:
  fixes k q r :: int
  assumes "0 \<le> r" "r < k"
  shows "(k * q + r) div k = q" and "(k * q + r) mod k = r"
  using assms by simp_all

lemma ord2ymd_eval:
  assumes n: "n0 - 1 = 146097 * a + N1" "0 \<le> N1" "N1 < 146097"
    and N1: "N1 = 36524 * b + N2" "0 \<le> N2" "N2 < 36524"
    and N2: "N2 = 1461 * c + N3" "0 \<le> N3" "N3 < 1461"
    and N3: "N3 = 365 * e + r" "0 \<le> r" "r < 365"
  shows "ord2ymd n0 =
     (if e = 4 \<or> b = 4 then (a * 400 + 1 + b * 100 + c * 4 + e - 1, 12, 31)
      else (case month_and_day (e = 3 \<and> (c \<noteq> 24 \<or> b = 3)) r of
              (m, d) \<Rightarrow> (a * 400 + 1 + b * 100 + c * 4 + e, m, d)))"
proof -
  have d1: "(n0 - 1) div 146097 = a" "(n0 - 1) mod 146097 = N1"
    unfolding n(1) using n(2,3) by (rule divmod_unique)+
  have d2: "N1 div 36524 = b" "N1 mod 36524 = N2"
    unfolding N1(1) using N1(2,3) by (rule divmod_unique)+
  have d3: "N2 div 1461 = c" "N2 mod 1461 = N3"
    unfolding N2(1) using N2(2,3) by (rule divmod_unique)+
  have d4: "N3 div 365 = e" "N3 mod 365 = r"
    unfolding N3(1) using N3(2,3) by (rule divmod_unique)+
  show ?thesis
    unfolding ord2ymd_def Let_def d1 d2 d3 d4 by (rule refl)
qed

lemma month_and_day_last: "month_and_day True 365 = (12, 31)"
  by code_simp

text \<open>A year as 400-year, 100-year and 4-year cycles plus single years.\<close>

lemma year_cycles:
  fixes Y :: int
  assumes "0 \<le> Y"
  obtains a b c e where "Y = 400 * a + 100 * b + 4 * c + e"
    and "0 \<le> a" and "0 \<le> b" and "b \<le> 3" and "0 \<le> c" and "c \<le> 24" and "0 \<le> e" and "e \<le> 3"
proof -
  define a where "a = Y div 400"
  define R1 where "R1 = Y mod 400"
  define b where "b = R1 div 100"
  define R2 where "R2 = R1 mod 100"
  define c where "c = R2 div 4"
  define e where "e = R2 mod 4"
  have Y: "Y = 400 * a + R1" and R1: "0 \<le> R1" "R1 < 400"
    by (simp_all add: a_def R1_def)
  have R1b: "R1 = 100 * b + R2" and R2: "0 \<le> R2" "R2 < 100"
    by (simp_all add: b_def R2_def)
  have R2c: "R2 = 4 * c + e" and e: "0 \<le> e" "e < 4"
    by (simp_all add: c_def e_def)
  have "Y = 400 * a + 100 * b + 4 * c + e"
    using Y R1b R2c by simp
  moreover have "0 \<le> a" using Y R1 assms by linarith
  moreover have "0 \<le> b" "b \<le> 3" using R1b R1 R2 by linarith+
  moreover have "0 \<le> c" "c \<le> 24" using R2c R2 e by linarith+
  moreover have "0 \<le> e" "e \<le> 3" using e by linarith+
  ultimately show thesis by (rule that)
qed

lemma days_before_year_cycles:
  assumes "0 \<le> b" "b \<le> 3" "0 \<le> c" "c \<le> 24" "0 \<le> e" "e \<le> 3"
  shows "days_before_year (400 * a + 100 * b + 4 * c + e + 1)
         = 146097 * a + 36524 * b + 1461 * c + 365 * e"
proof -
  let ?Y = "400 * a + 100 * b + 4 * c + e"
  have "?Y = 4 * (100 * a + 25 * b + c) + e" by simp
  then have q4: "?Y div 4 = 100 * a + 25 * b + c"
    using divmod_unique(1) [of e 4 "100 * a + 25 * b + c"] assms by simp
  have "?Y = 100 * (4 * a + b) + (4 * c + e)" by simp
  then have q100: "?Y div 100 = 4 * a + b"
    using divmod_unique(1) [of "4 * c + e" 100 "4 * a + b"] assms by simp
  have "?Y = 400 * a + (100 * b + 4 * c + e)" by simp
  then have q400: "?Y div 400 = a"
    using divmod_unique(1) [of "100 * b + 4 * c + e" 400 a] assms by simp
  show ?thesis
    unfolding days_before_year_def using q4 q100 q400 by simp
qed

lemma divmod_eqI:
  fixes x k q r :: int
  assumes "x = k * q + r" "0 \<le> r" "r < k"
  shows "x mod k = r" and "x div k = q"
  using assms by simp_all

lemma is_leap_cycles:
  assumes "0 \<le> b" "b \<le> 3" "0 \<le> c" "c \<le> 24" "0 \<le> e" "e \<le> 3"
  shows "is_leap (400 * a + 100 * b + 4 * c + e + 1) \<longleftrightarrow> e = 3 \<and> (c \<noteq> 24 \<or> b = 3)"
proof -
  let ?y = "400 * a + 100 * b + 4 * c + e + 1"
  have m4: "?y mod 4 = 0 \<longleftrightarrow> e = 3"
  proof (cases "e = 3")
    case True
    have "?y mod 4 = 0"
      by (rule divmod_eqI(1) [where q = "100 * a + 25 * b + c + 1"]) (use True in simp_all)
    with True show ?thesis by simp
  next
    case False
    have "?y mod 4 = e + 1"
      by (rule divmod_eqI(1) [where q = "100 * a + 25 * b + c"]) (use False assms in simp_all)
    with False assms show ?thesis by simp
  qed
  have m100: "?y mod 100 = 0 \<longleftrightarrow> c = 24 \<and> e = 3"
  proof (cases "c = 24 \<and> e = 3")
    case True
    have "?y mod 100 = 0"
      by (rule divmod_eqI(1) [where q = "4 * a + b + 1"]) (use True in simp_all)
    with True show ?thesis by simp
  next
    case False
    have "?y mod 100 = 4 * c + e + 1"
      by (rule divmod_eqI(1) [where q = "4 * a + b"]) (use False assms in \<open>simp, linarith+\<close>)
    with False assms show ?thesis by simp
  qed
  have m400: "?y mod 400 = 0 \<longleftrightarrow> b = 3 \<and> c = 24 \<and> e = 3"
  proof (cases "b = 3 \<and> c = 24 \<and> e = 3")
    case True
    have "?y mod 400 = 0"
      by (rule divmod_eqI(1) [where q = "a + 1"]) (use True in simp_all)
    with True show ?thesis by simp
  next
    case False
    have "?y mod 400 = 100 * b + 4 * c + e + 1"
      by (rule divmod_eqI(1) [where q = a]) (use False assms in \<open>simp, linarith+\<close>)
    with False assms show ?thesis by simp
  qed
  show ?thesis unfolding is_leap_def m4 m100 m400 by blast
qed

lemma ord2ymd_ymd2ord:
  assumes "1 \<le> y" "1 \<le> m" "m \<le> 12" "1 \<le> d" "d \<le> days_in_month y m"
  shows "ord2ymd (ymd2ord y m d) = (y, m, d)"
proof -
  from assms(1) have "0 \<le> y - 1" by simp
  then obtain a b c e where Y: "y - 1 = 400 * a + 100 * b + 4 * c + e"
    and bnd: "0 \<le> b" "b \<le> 3" "0 \<le> c" "c \<le> 24" "0 \<le> e" "e \<le> 3"
    by (rule year_cycles)
  from Y have y: "y = 400 * a + 100 * b + 4 * c + e + 1" by simp
  define r where "r = days_before_month y m + d - 1"
  have dby: "days_before_year y = 146097 * a + 36524 * b + 1461 * c + 365 * e"
    unfolding y using bnd by (rule days_before_year_cycles)
  have leap: "is_leap y \<longleftrightarrow> e = 3 \<and> (c \<noteq> 24 \<or> b = 3)"
    unfolding y using bnd by (rule is_leap_cycles)
  have r0: "0 \<le> r" and r1: "r \<le> (if is_leap y then 365 else 364)"
    unfolding r_def using assms(2-5) by (rule day_of_year_bounds)+
  have md: "month_and_day (is_leap y) r = (m, d)"
    unfolding r_def using assms(2-5) by (rule month_and_day_inverse)
  have n: "ymd2ord y m d - 1 = 146097 * a + 36524 * b + 1461 * c + 365 * e + r"
    by (simp add: ymd2ord_def dby r_def)
  show ?thesis
  proof (cases "r < 365")
    case True
    have "ord2ymd (ymd2ord y m d) =
       (if e = 4 \<or> b = 4 then (a * 400 + 1 + b * 100 + c * 4 + e - 1, 12, 31)
        else (case month_and_day (e = 3 \<and> (c \<noteq> 24 \<or> b = 3)) r of
                (m, d) \<Rightarrow> (a * 400 + 1 + b * 100 + c * 4 + e, m, d)))"
    proof (rule ord2ymd_eval)
      show "ymd2ord y m d - 1 = 146097 * a + (36524 * b + 1461 * c + 365 * e + r)"
        using n by simp
      show "36524 * b + 1461 * c + 365 * e + r = 36524 * b + (1461 * c + 365 * e + r)" by simp
      show "1461 * c + 365 * e + r = 1461 * c + (365 * e + r)" by simp
      show "365 * e + r = 365 * e + r" by simp
    qed (use bnd r0 True in linarith)+
    with bnd leap md y show ?thesis by simp
  next
    case False
    with r1 have r: "r = 365" and ly: "is_leap y" by (simp_all split: if_splits)
    from md r ly have "(m, d) = (12, 31)" by (simp add: month_and_day_last)
    then have m: "m = 12" and d: "d = 31" by simp_all
    from ly leap have e: "e = 3" and cb: "c \<noteq> 24 \<or> b = 3" by simp_all
    show ?thesis
    proof (cases "c = 24")
      case True
      with cb have b: "b = 3" by simp
      have "ord2ymd (ymd2ord y m d) =
         (if (0::int) = 4 \<or> (4::int) = 4 then (a * 400 + 1 + 4 * 100 + 0 * 4 + 0 - 1, 12, 31)
          else (case month_and_day ((0::int) = 3 \<and> ((0::int) \<noteq> 24 \<or> (4::int) = 3)) 0 of
                  (m, d) \<Rightarrow> (a * 400 + 1 + 4 * 100 + 0 * 4 + 0, m, d)))"
      proof (rule ord2ymd_eval)
        show "ymd2ord y m d - 1 = 146097 * a + 146096"
          using n r e b True by simp
        show "(146096::int) = 36524 * 4 + 0" by simp
        show "(0::int) = 1461 * 0 + 0" by simp
        show "(0::int) = 365 * 0 + 0" by simp
      qed simp_all
      with y e b True m d show ?thesis by simp
    next
      case False
      with bnd have c23: "c \<le> 23" by simp
      have "ord2ymd (ymd2ord y m d) =
         (if (4::int) = 4 \<or> b = 4 then (a * 400 + 1 + b * 100 + c * 4 + 4 - 1, 12, 31)
          else (case month_and_day ((4::int) = 3 \<and> (c \<noteq> 24 \<or> b = 3)) 0 of
                  (m, d) \<Rightarrow> (a * 400 + 1 + b * 100 + c * 4 + 4, m, d)))"
      proof (rule ord2ymd_eval)
        show "ymd2ord y m d - 1 = 146097 * a + (36524 * b + 1461 * c + 1460)"
          using n r e by simp
        show "36524 * b + 1461 * c + 1460 = 36524 * b + (1461 * c + 1460)" by simp
        show "1461 * c + 1460 = 1461 * c + 1460" by simp
        show "(1460::int) = 365 * 4 + 0" by simp
      qed (use bnd c23 in linarith)+
      with y e m d show ?thesis by simp
    qed
  qed
qed

lemma div_succ:
  fixes z k :: int
  assumes "0 < k"
  shows "(z + 1) div k = z div k + (if k dvd z + 1 then 1 else 0)"
proof (cases "k dvd z + 1")
  case True
  then obtain q where q: "z + 1 = k * q" ..
  then have "z = k * (q - 1) + (k - 1)" by (simp add: algebra_simps)
  then have "z div k = q - 1"
    by (rule divmod_eqI(2)) (use assms in simp_all)
  moreover from q assms have "(z + 1) div k = q" by simp
  ultimately show ?thesis using True by simp
next
  case False
  define r where "r = z mod k"
  have z: "z = k * (z div k) + r" by (simp add: r_def)
  have r: "0 \<le> r" "r < k" using assms by (simp_all add: r_def)
  have "r + 1 \<noteq> k"
  proof
    assume "r + 1 = k"
    with z have "z + 1 = k * (z div k + 1)" by (simp add: algebra_simps)
    then have "k dvd z + 1" by simp
    with False show False ..
  qed
  with r have r1: "r + 1 < k" by simp
  from z have "z + 1 = k * (z div k) + (r + 1)" by simp
  then have "(z + 1) div k = z div k"
    by (rule divmod_eqI(2)) (use r r1 in simp_all)
  with False show ?thesis by simp
qed

lemma days_before_year_step:
  "days_before_year (y + 1) = days_before_year y + 365 + (if leap_year y then 1 else 0)"
proof -
  have d4: "y div 4 = (y - 1) div 4 + (if 4 dvd y then 1 else 0)"
    using div_succ [of 4 "y - 1"] by simp
  have d100: "y div 100 = (y - 1) div 100 + (if 100 dvd y then 1 else 0)"
    using div_succ [of 100 "y - 1"] by simp
  have d400: "y div 400 = (y - 1) div 400 + (if 400 dvd y then 1 else 0)"
    using div_succ [of 400 "y - 1"] by simp
  have "(100::int) dvd 400" and "(4::int) dvd 100" by simp_all
  then have c1: "400 dvd y \<Longrightarrow> 100 dvd y" and c2: "100 dvd y \<Longrightarrow> 4 dvd y"
    by (blast intro: dvd_trans)+
  have leap: "(if 4 dvd y then 1 else 0) - (if 100 dvd y then 1 else 0)
       + (if 400 dvd y then 1 else (0::int)) = (if leap_year y then 1 else 0)"
    using c1 c2 by (cases "4 dvd y"; cases "100 dvd y"; cases "400 dvd y")
      (simp_all add: leap_year_def)
  have "days_before_year (y + 1) = y * 365 + y div 4 - y div 100 + y div 400"
    by (simp add: days_before_year_def)
  also have "\<dots> = days_before_year y + 365 + ((if 4 dvd y then 1 else 0)
       - (if 100 dvd y then 1 else 0) + (if 400 dvd y then 1 else 0))"
    unfolding d4 d100 d400 days_before_year_def by (simp add: algebra_simps)
  finally show ?thesis unfolding leap by simp
qed

lemma ordinal_day_before:
  assumes "valid_date date"
  shows "ordinal_of (day_before date) = ordinal_of date - 1"
proof -
  obtain y m d where date: "date = (y, m, d)" by (cases date)
  from assms have v: "1 \<le> m" "m \<le> 12" "1 \<le> d" by (simp_all add: date)
  consider "1 < d" | "d = 1" "1 < m" | "d = 1" "m = 1" using v by linarith
  then show ?thesis
  proof cases
    case 1
    then show ?thesis by (simp add: date ordinal_of_def ymd2ord_def)
  next
    case 2
    with v have "days_before_month y m = days_before_month y (m - 1) + month_length y (m - 1)"
      by (intro days_before_month_step) simp_all
    with 2 show ?thesis by (simp add: date ordinal_of_def ymd2ord_def)
  next
    case 3
    have "days_before_year y = days_before_year (y - 1) + 365 + (if leap_year (y - 1) then 1 else 0)"
      using days_before_year_step [of "y - 1"] by simp
    with 3 show ?thesis
      by (simp add: date ordinal_of_def ymd2ord_def days_before_month_def DAYS_BEFORE_MONTH_def
          is_leap_iff)
  qed
qed

lemma days_before_year_nonneg:
  assumes "1 \<le> y"
  shows "0 \<le> days_before_year y"
proof -
  from assms have "0 \<le> y - 1" by simp
  then obtain a b c e where Y: "y - 1 = 400 * a + 100 * b + 4 * c + e"
    and bnd: "0 \<le> a" "0 \<le> b" "b \<le> 3" "0 \<le> c" "c \<le> 24" "0 \<le> e" "e \<le> 3"
    by (rule year_cycles)
  from Y have y: "y = 400 * a + 100 * b + 4 * c + e + 1" by simp
  have "days_before_year y = 146097 * a + 36524 * b + 1461 * c + 365 * e"
    unfolding y using bnd(2-) by (rule days_before_year_cycles)
  with bnd show ?thesis by simp
qed

lemma days_before_year_1: "days_before_year 1 = 0"
  by (simp add: days_before_year_def)

lemma valid_date_days_in_month:
  "valid_date (y, m, d) \<Longrightarrow> 1 \<le> y \<and> 1 \<le> m \<and> m \<le> 12 \<and> 1 \<le> d \<and> d \<le> days_in_month y m"
  by (simp add: days_in_month_eq)

lemma ordinal_pos:
  assumes "valid_date date"
  shows "1 \<le> ordinal_of date"
proof -
  obtain y m d where date: "date = (y, m, d)" by (cases date)
  from assms have v: "1 \<le> y" "1 \<le> m" "m \<le> 12" "1 \<le> d" "d \<le> days_in_month y m"
    using valid_date_days_in_month by (simp_all add: date del: valid_date.simps)
  from day_of_year_bounds(1) [OF v(2-5)] days_before_year_nonneg [OF v(1)]
  show ?thesis by (simp add: date ordinal_of_def ymd2ord_def)
qed

lemma valid_day_before:
  assumes "valid_date date" and "1 < ordinal_of date"
  shows "valid_date (day_before date)"
proof -
  obtain y m d where date: "date = (y, m, d)" by (cases date)
  from assms(1) have v: "1 \<le> y" "y \<le> 9999" "1 \<le> m" "m \<le> 12" "1 \<le> d" "d \<le> month_length y m"
    by (simp_all add: date)
  consider "1 < d" | "d = 1" "1 < m" | "d = 1" "m = 1" using v by linarith
  then show ?thesis
  proof cases
    case 1
    with v show ?thesis by (simp add: date)
  next
    case 2
    have "1 \<le> month_length y (m - 1)" by (simp add: month_length_def)
    with 2 v show ?thesis by (simp add: date)
  next
    case 3
    have "y \<noteq> 1"
    proof
      assume "y = 1"
      with 3 assms(2) show False
        by (simp add: date ordinal_of_def ymd2ord_def days_before_year_1 days_before_month_def
            DAYS_BEFORE_MONTH_def)
    qed
    with 3 v show ?thesis by (simp add: date month_length_def)
  qed
qed

lemma ordinal_le_max:
  assumes "valid_date date"
  shows "ordinal_of date \<le> MAXORDINAL"
proof -
  obtain y m d where date: "date = (y, m, d)" by (cases date)
  from assms have v: "1 \<le> y" "1 \<le> m" "m \<le> 12" "1 \<le> d" "d \<le> days_in_month y m"
    using valid_date_days_in_month by (simp_all add: date del: valid_date.simps)
  from assms have y9: "y \<le> 9999" by (simp add: date)
  from v(1) have "0 \<le> y - 1" by simp
  then obtain a b c e where Y: "y - 1 = 400 * a + 100 * b + 4 * c + e"
    and bnd: "0 \<le> a" "0 \<le> b" "b \<le> 3" "0 \<le> c" "c \<le> 24" "0 \<le> e" "e \<le> 3"
    by (rule year_cycles)
  from Y have y: "y = 400 * a + 100 * b + 4 * c + e + 1" by simp
  have dby: "days_before_year y = 146097 * a + 36524 * b + 1461 * c + 365 * e"
    unfolding y using bnd(2-) by (rule days_before_year_cycles)
  have leap: "is_leap y \<longleftrightarrow> e = 3 \<and> (c \<noteq> 24 \<or> b = 3)"
    unfolding y using bnd(2-) by (rule is_leap_cycles)
  define r where "r = days_before_month y m + d - 1"
  have r1: "r \<le> (if is_leap y then 365 else 364)"
    unfolding r_def using v(2-5) by (rule day_of_year_bounds)
  have ord: "ordinal_of date = 146097 * a + 36524 * b + 1461 * c + 365 * e + r + 1"
    by (simp add: date ordinal_of_def ymd2ord_def dby r_def)
  from y y9 have small: "400 * a + 100 * b + 4 * c + e \<le> 9998" by simp
  with bnd have "400 * a \<le> 9998" by linarith
  then have a24: "a \<le> 24" by simp
  show ?thesis
  proof (cases "a = 24")
    case False
    with a24 have "a \<le> 23" by simp
    with bnd r1 show ?thesis unfolding ord MAXORDINAL_def by (simp split: if_splits)
  next
    case a: True
    show ?thesis
    proof (cases "is_leap y")
      case True
      with leap have e: "e = 3" and cb: "c \<noteq> 24 \<or> b = 3" by simp_all
      from True r1 have r: "r \<le> 365" by simp
      from small a e have "100 * b + 4 * c \<le> 395" by simp
      with cb bnd have "c \<le> 23" by (cases "c = 24") simp_all
      with a e r bnd show ?thesis unfolding ord MAXORDINAL_def by simp
    next
      case False
      with r1 have r: "r \<le> 364" by simp
      from False leap bnd have "e \<le> 2 \<or> (e = 3 \<and> c = 24 \<and> b \<le> 2)" by auto
      then show ?thesis
      proof
        assume "e \<le> 2"
        with a r bnd show ?thesis unfolding ord MAXORDINAL_def by simp
      next
        assume "e = 3 \<and> c = 24 \<and> b \<le> 2"
        with a r show ?thesis unfolding ord MAXORDINAL_def by simp
      qed
    qed
  qed
qed

lemma ord2ymd_days_ago:
  assumes "valid_date date" and "int k < ordinal_of date"
  shows "ord2ymd (ordinal_of date - int k) = days_ago k date \<and> valid_date (days_ago k date)
         \<and> ordinal_of (days_ago k date) = ordinal_of date - int k"
  using assms
proof (induction k arbitrary: date)
  case 0
  obtain y m d where date: "date = (y, m, d)" by (cases date)
  from 0(1) have "1 \<le> y \<and> 1 \<le> m \<and> m \<le> 12 \<and> 1 \<le> d \<and> d \<le> days_in_month y m"
    unfolding date by (rule valid_date_days_in_month)
  then have "ord2ymd (ymd2ord y m d) = (y, m, d)" by (intro ord2ymd_ymd2ord) simp_all
  with 0(1) show ?case by (simp add: date ordinal_of_def days_ago_def)
next
  case (Suc k)
  from Suc.prems(2) have big: "1 < ordinal_of date" by simp
  have v: "valid_date (day_before date)"
    using Suc.prems(1) big by (rule valid_day_before)
  have o: "ordinal_of (day_before date) = ordinal_of date - 1"
    using Suc.prems(1) by (rule ordinal_day_before)
  with Suc.prems(2) have "int k < ordinal_of (day_before date)" by simp
  with v have "ord2ymd (ordinal_of (day_before date) - int k) = days_ago k (day_before date)
      \<and> valid_date (days_ago k (day_before date))
      \<and> ordinal_of (days_ago k (day_before date)) = ordinal_of (day_before date) - int k"
    by (rule Suc.IH)
  moreover have "ordinal_of (day_before date) - int k = ordinal_of date - int (Suc k)"
    using o by simp
  moreover have "days_ago k (day_before date) = days_ago (Suc k) date"
    by (simp add: days_ago_def funpow_swap1)
  ultimately show ?case by simp
qed

lemma toordinal_date_of: "toordinal t = ordinal_of (date_of t)"
  by (simp add: toordinal_def ordinal_of_def date_of_def)

lemma minus_days_days_ago:
  assumes "valid_date (date_of t)" and "int k < toordinal t"
  shows "\<exists>s. minus_days t (int k) = Inr s \<and> date_of s = days_ago k (date_of t)
            \<and> valid_date (date_of s) \<and> toordinal s = toordinal t - int k"
proof -
  from assms(2) have k: "int k < ordinal_of (date_of t)" by (simp add: toordinal_date_of)
  from ord2ymd_days_ago [OF assms(1) k]
  have conv: "ord2ymd (toordinal t - int k) = days_ago k (date_of t)"
    and v: "valid_date (days_ago k (date_of t))"
    and o: "ordinal_of (days_ago k (date_of t)) = toordinal t - int k"
    by (simp_all add: toordinal_date_of)
  from ordinal_le_max [OF assms(1)] have "toordinal t - int k \<le> MAXORDINAL"
    by (simp add: toordinal_date_of)
  moreover from assms(2) have "0 < toordinal t - int k" by simp
  moreover obtain y m d where D: "days_ago k (date_of t) = (y, m, d)"
    by (cases "days_ago k (date_of t)")
  ultimately have "minus_days t (int k) = Inr (t\<lparr>year := y, month := m, day := d\<rparr>)"
    by (simp add: minus_days_def Let_def conv)
  moreover have "date_of (t\<lparr>year := y, month := m, day := d\<rparr>) = (y, m, d)"
    by (simp add: date_of_def)
  ultimately show ?thesis using v D o by (simp add: toordinal_date_of)
qed

subsection \<open>Years and ordinals\<close>

lemma days_before_year_mono:
  assumes "a \<le> b"
  shows "days_before_year a \<le> days_before_year b"
  using assms
proof (induction b rule: int_ge_induct)
  case base
  show ?case by simp
next
  case (step i)
  from days_before_year_step [of i] have "days_before_year i \<le> days_before_year (i + 1)"
    by (simp split: if_splits)
  with step.IH show ?case by simp
qed

lemma ymd2ord_first_day: "ymd2ord y 1 1 = days_before_year y + 1"
  by (simp add: ymd2ord_def days_before_month_def DAYS_BEFORE_MONTH_def)

lemma after_first_week:
  assumes "valid_date (date_of t)"
    and "y0 < year t \<or> (year t = y0 \<and> (1 < month t \<or> 7 < day t))"
  shows "ymd2ord y0 1 1 + 7 \<le> toordinal t"
proof -
  from assms(1) have v: "1 \<le> year t" "1 \<le> month t" "month t \<le> 12" "1 \<le> day t"
      "day t \<le> days_in_month (year t) (month t)"
    using valid_date_days_in_month [of "year t" "month t" "day t"]
    by (simp_all add: date_of_def del: valid_date.simps)
  from month_disj [OF v(2,3)] have dbm: "0 \<le> days_before_month (year t) (month t)"
    by (elim disjE) (simp_all add: days_before_month_def DAYS_BEFORE_MONTH_def)
  have ord: "toordinal t
      = days_before_year (year t) + days_before_month (year t) (month t) + day t"
    by (simp add: toordinal_def ymd2ord_def)
  from assms(2) consider "y0 < year t" | "year t = y0" "1 < month t" | "year t = y0" "7 < day t"
    by blast
  then show ?thesis
  proof cases
    case 1
    then have "days_before_year (y0 + 1) \<le> days_before_year (year t)"
      by (intro days_before_year_mono) simp
    with days_before_year_step [of y0] have "days_before_year y0 + 365 \<le> days_before_year (year t)"
      by (simp split: if_splits)
    with dbm v(4) show ?thesis unfolding ord ymd2ord_first_day by linarith
  next
    case 2
    from month_disj [OF v(2,3)] 2(2) have "31 \<le> days_before_month (year t) (month t)"
      by (elim disjE) (simp_all add: days_before_month_def DAYS_BEFORE_MONTH_def)
    with 2(1) v(4) show ?thesis by (simp add: ord ymd2ord_first_day)
  next
    case 3
    with dbm show ?thesis by (simp add: ord ymd2ord_first_day)
  qed
qed

lemma year_from_ordinal:
  assumes "valid_date (date_of s)" and "ymd2ord y0 1 1 \<le> toordinal s"
  shows "y0 \<le> year s"
proof (rule ccontr)
  assume "\<not> y0 \<le> year s"
  then have "year s + 1 \<le> y0" by simp
  then have mono: "days_before_year (year s + 1) \<le> days_before_year y0"
    by (rule days_before_year_mono)
  from assms(1) have v: "1 \<le> month s" "month s \<le> 12" "1 \<le> day s"
      "day s \<le> days_in_month (year s) (month s)"
    using valid_date_days_in_month [of "year s" "month s" "day s"]
    by (simp_all add: date_of_def del: valid_date.simps)
  have "days_before_month (year s) (month s) + day s - 1 \<le> (if is_leap (year s) then 365 else 364)"
    using v by (rule day_of_year_bounds)
  with days_before_year_step [of "year s"]
  have "toordinal s \<le> days_before_year (year s + 1)"
    by (simp add: toordinal_def ymd2ord_def is_leap_iff split: if_splits)
  with mono assms(2) show False by (simp add: ymd2ord_first_day)
qed

subsection \<open>The printed date\<close>

lemma digit_table: "list_all (\<lambda>k. digit_char k = decimal_digit k) [0..<10]"
  by code_simp

lemma digit_char_decimal:
  assumes "k < 10"
  shows "digit_char k = decimal_digit k"
proof -
  from assms have "k \<in> set [0..<10]" by simp
  with digit_table show ?thesis unfolding list_all_iff by blast
qed

lemma decimal_digit_0: "decimal_digit 0 = CHR ''0''"
  by code_simp

lemma str_nat_1: "n < 10 \<Longrightarrow> str_nat n = [decimal_digit n]"
  by (simp add: str_nat.simps [of n] digit_char_decimal)

lemma str_nat_2:
  assumes "10 \<le> n" "n < 100"
  shows "str_nat n = [decimal_digit (n div 10), decimal_digit (n mod 10)]"
proof -
  from assms have "n div 10 < 10" by simp
  then have "str_nat (n div 10) = [decimal_digit (n div 10)]" by (rule str_nat_1)
  with assms show ?thesis by (simp add: str_nat.simps [of n] digit_char_decimal)
qed

lemma str_nat_3:
  assumes "100 \<le> n" "n < 1000"
  shows "str_nat n = [decimal_digit (n div 100), decimal_digit (n div 10 mod 10),
                      decimal_digit (n mod 10)]"
proof -
  from assms have "10 \<le> n div 10" "n div 10 < 100" by simp_all
  then have "str_nat (n div 10)
      = [decimal_digit (n div 10 div 10), decimal_digit (n div 10 mod 10)]"
    by (rule str_nat_2)
  moreover have "n div 10 div 10 = n div 100" by (simp add: div_mult2_eq [symmetric])
  ultimately show ?thesis using assms by (simp add: str_nat.simps [of n] digit_char_decimal)
qed

lemma str_nat_4:
  assumes "1000 \<le> n" "n < 10000"
  shows "str_nat n = four_digits n"
proof -
  from assms have "100 \<le> n div 10" "n div 10 < 1000" by simp_all
  then have "str_nat (n div 10)
      = [decimal_digit (n div 10 div 100), decimal_digit (n div 10 div 10 mod 10),
         decimal_digit (n div 10 mod 10)]"
    by (rule str_nat_3)
  moreover have "n div 10 div 100 = n div 1000" "n div 10 div 10 = n div 100"
    by (simp_all add: div_mult2_eq [symmetric])
  ultimately show ?thesis
    using assms by (simp add: str_nat.simps [of n] digit_char_decimal four_digits_def)
qed

lemma zero_pad_2:
  assumes "n < 100"
  shows "zero_pad 2 (str_nat n) = two_digits n"
proof (cases "n < 10")
  case True
  then show ?thesis by (simp add: str_nat_1 zero_pad_def two_digits_def decimal_digit_0)
next
  case False
  with assms show ?thesis by (simp add: str_nat_2 zero_pad_def two_digits_def)
qed

lemma strftime_Ymd_iso_date:
  assumes "valid_date (date_of t)" and "1000 \<le> year t"
  shows "strftime_Ymd t = iso_date (date_of t)"
proof -
  from assms(1) have v: "year t \<le> 9999" "1 \<le> month t" "month t \<le> 12"
      "1 \<le> day t" "day t \<le> month_length (year t) (month t)"
    by (simp_all add: date_of_def)
  have "month_length (year t) (month t) \<le> 31" by (simp add: month_length_def)
  with v(5) have d31: "day t \<le> 31" by simp
  from assms(2) v(1) have "1000 \<le> nat (year t)" "nat (year t) < 10000" by simp_all
  then have y: "str_nat (nat (year t)) = four_digits (nat (year t))" by (rule str_nat_4)
  from v(3) have "nat (month t) < 100" by simp
  then have m: "zero_pad 2 (str_nat (nat (month t))) = two_digits (nat (month t))"
    by (rule zero_pad_2)
  from d31 have "nat (day t) < 100" by simp
  then have d: "zero_pad 2 (str_nat (nat (day t))) = two_digits (nat (day t))"
    by (rule zero_pad_2)
  show ?thesis by (simp add: strftime_Ymd_def date_of_def y m d)
qed

subsection \<open>The historical request\<close>

lemma historical_params:
  assumes "valid_date (date_of today)"
    and "1000 < year today \<or> (year today = 1000 \<and> (1 < month today \<or> 7 < day today))"
  shows "weather_params today lat lon True
      = Inr [(''latitude'', lat), (''longitude'', lon),
             (''start_date'', PStr (iso_date (days_ago 7 (date_of today)))),
             (''end_date'', PStr (iso_date (days_ago 1 (date_of today)))),
             (''daily'', PStr ''temperature_2m_max,temperature_2m_min,weather_code'')]"
proof -
  have late: "ymd2ord 1000 1 1 + 7 \<le> toordinal today"
    using assms by (rule after_first_week)
  have "0 \<le> days_before_year 1000" by (rule days_before_year_nonneg) simp
  with late have "int 7 < toordinal today" and "int 1 < toordinal today"
    by (simp_all add: ymd2ord_first_day)
  from minus_days_days_ago [OF assms(1) this(1)] minus_days_days_ago [OF assms(1) this(2)]
  obtain start stop where
    s: "minus_days today 7 = Inr start" "date_of start = days_ago 7 (date_of today)"
       "valid_date (date_of start)" "toordinal start = toordinal today - 7"
    and e: "minus_days today 1 = Inr stop" "date_of stop = days_ago 1 (date_of today)"
       "valid_date (date_of stop)" "toordinal stop = toordinal today - 1"
    by auto
  from late s(4) have "ymd2ord 1000 1 1 \<le> toordinal start" by simp
  with s(3) have "1000 \<le> year start" by (rule year_from_ordinal)
  with s(3) have fs: "strftime_Ymd start = iso_date (date_of start)"
    by (rule strftime_Ymd_iso_date)
  from late e(4) have "ymd2ord 1000 1 1 \<le> toordinal stop" by simp
  with e(3) have "1000 \<le> year stop" by (rule year_from_ordinal)
  with e(3) have fe: "strftime_Ymd stop = iso_date (date_of stop)"
    by (rule strftime_Ymd_iso_date)
  show ?thesis
    by (simp add: weather_params_def and_then_def s(1) e(1) fs fe s(2) e(2))
qed

lemma fetch_sends_params:
  assumes "weather_params today lat lon is_historical = Inr ps"
  shows "\<exists>rest r. fetch_weather_data http_get today lat lon is_historical
            = (Request WEATHER_API_URL ps # rest, r)
         \<and> filter is_weather_request rest = []"
  unfolding fetch_weather_data_def assms
  by (cases "http_get WEATHER_API_URL ps") (simp_all add: is_weather_request_def)

lemma iso_date_june_8: "iso_date (2024, 6, 8) = ''2024-06-08''"
  and iso_date_june_14: "iso_date (2024, 6, 14) = ''2024-06-14''"
  and iso_date_february_23: "iso_date (2024, 2, 23) = ''2024-02-23''"
  and iso_date_february_29: "iso_date (2024, 2, 29) = ''2024-02-29''"
  and iso_date_december_24: "iso_date (999, 12, 24) = ''0999-12-24''"
  by code_simp+

lemma leap_year_2024: "leap_year 2024"
  by (simp add: leap_year_def)

text \<open>
  Claim C3, as amended. For every call date of the calendar from 1000-01-08 on, the
  historical request is sent with \<^verbatim>\<open>start_date\<close> the date seven days before the call
  date and \<^verbatim>\<open>end_date\<close> the date one day before it, both written \<^verbatim>\<open>YYYY-MM-DD\<close>. For a
  call on 2024-06-15 they are "2024-06-08" and "2024-06-14".
\<close>

theorem historical_date_range:
  "(valid_date (date_of today)
      \<and> (1000 < year today \<or> (year today = 1000 \<and> (1 < month today \<or> 7 < day today)))
     \<longrightarrow> weather_params today lat lon True
           = Inr [(''latitude'', lat), (''longitude'', lon),
                  (''start_date'', PStr (iso_date (days_ago 7 (date_of today)))),
                  (''end_date'', PStr (iso_date (days_ago 1 (date_of today)))),
                  (''daily'', PStr ''temperature_2m_max,temperature_2m_min,weather_code'')]
         \<and> (\<exists>rest r. fetch_weather_data http_get today lat lon True
               = (Request WEATHER_API_URL
                    [(''latitude'', lat), (''longitude'', lon),
                     (''start_date'', PStr (iso_date (days_ago 7 (date_of today)))),
                     (''end_date'', PStr (iso_date (days_ago 1 (date_of today)))),
                     (''daily'', PStr ''temperature_2m_max,temperature_2m_min,weather_code'')]
                  # rest, r)
               \<and> filter is_weather_request rest = []))
   \<and> weather_params \<lparr>year = 2024, month = 6, day = 15, microsecond_of_day = us\<rparr> lat lon True
       = Inr [(''latitude'', lat), (''longitude'', lon),
              (''start_date'', PStr ''2024-06-08''),
              (''end_date'', PStr ''2024-06-14''),
              (''daily'', PStr ''temperature_2m_max,temperature_2m_min,weather_code'')]
   \<and> iso_date (days_ago 7 (2024, 6, 15)) = ''2024-06-08''
   \<and> iso_date (days_ago 1 (2024, 6, 15)) = ''2024-06-14''"
proof (intro conjI impI)
  assume a: "valid_date (date_of today)
      \<and> (1000 < year today \<or> (year today = 1000 \<and> (1 < month today \<or> 7 < day today)))"
  then have ps: "weather_params today lat lon True
      = Inr [(''latitude'', lat), (''longitude'', lon),
             (''start_date'', PStr (iso_date (days_ago 7 (date_of today)))),
             (''end_date'', PStr (iso_date (days_ago 1 (date_of today)))),
             (''daily'', PStr ''temperature_2m_max,temperature_2m_min,weather_code'')]"
    by (intro historical_params) simp_all
  then show "weather_params today lat lon True
      = Inr [(''latitude'', lat), (''longitude'', lon),
             (''start_date'', PStr (iso_date (days_ago 7 (date_of today)))),
             (''end_date'', PStr (iso_date (days_ago 1 (date_of today)))),
             (''daily'', PStr ''temperature_2m_max,temperature_2m_min,weather_code'')]" .
  from ps show "\<exists>rest r. fetch_weather_data http_get today lat lon True
               = (Request WEATHER_API_URL
                    [(''latitude'', lat), (''longitude'', lon),
                     (''start_date'', PStr (iso_date (days_ago 7 (date_of today)))),
                     (''end_date'', PStr (iso_date (days_ago 1 (date_of today)))),
                     (''daily'', PStr ''temperature_2m_max,temperature_2m_min,weather_code'')]
                  # rest, r)
               \<and> filter is_weather_request rest = []"
    by (rule fetch_sends_params)
next
  have seven: "days_ago 7 (2024, 6, 15) = (2024, 6, 8)"
    and one: "days_ago 1 (2024, 6, 15) = (2024, 6, 14)"
    by (simp_all add: days_ago_def eval_nat_numeral)
  show "iso_date (days_ago 7 (2024, 6, 15)) = ''2024-06-08''"
    unfolding seven by (rule iso_date_june_8)
  show "iso_date (days_ago 1 (2024, 6, 15)) = ''2024-06-14''"
    unfolding one by (rule iso_date_june_14)
  have "valid_date (date_of \<lparr>year = 2024, month = 6, day = 15, microsecond_of_day = us\<rparr>)"
    by (simp add: date_of_def month_length_def)
  then have "weather_params \<lparr>year = 2024, month = 6, day = 15, microsecond_of_day = us\<rparr> lat lon True
      = Inr [(''latitude'', lat), (''longitude'', lon),
             (''start_date'', PStr (iso_date (days_ago 7
                (date_of \<lparr>year = 2024, month = 6, day = 15, microsecond_of_day = us\<rparr>)))),
             (''end_date'', PStr (iso_date (days_ago 1
                (date_of \<lparr>year = 2024, month = 6, day = 15, microsecond_of_day = us\<rparr>)))),
             (''daily'', PStr ''temperature_2m_max,temperature_2m_min,weather_code'')]"
    by (rule historical_params) simp
  moreover have "date_of \<lparr>year = 2024, month = 6, day = 15, microsecond_of_day = us\<rparr>
      = (2024, 6, 15)"
    by (simp add: date_of_def)
  ultimately
  show "weather_params \<lparr>year = 2024, month = 6, day = 15, microsecond_of_day = us\<rparr> lat lon True
       = Inr [(''latitude'', lat), (''longitude'', lon),
              (''start_date'', PStr ''2024-06-08''),
              (''end_date'', PStr ''2024-06-14''),
              (''daily'', PStr ''temperature_2m_max,temperature_2m_min,weather_code'')]"
    by (simp only: seven one iso_date_june_8 iso_date_june_14)
qed

theorem historical_date_range_witness:
  "weather_params march_first (PFloat ''49.84'') (PFloat ''24.03'') True
     = Inr [(''latitude'', PFloat ''49.84''), (''longitude'', PFloat ''24.03''),
            (''start_date'', PStr ''2024-02-23''),
            (''end_date'', PStr ''2024-02-29''),
            (''daily'', PStr ''temperature_2m_max,temperature_2m_min,weather_code'')]
   \<and> (\<exists>rest r. (fetch_weather_data failing_http march_first (PFloat ''49.84'') (PFloat ''24.03'')
                   True :: (unit event, pyval) run)
         = (Request WEATHER_API_URL
              [(''latitude'', PFloat ''49.84''), (''longitude'', PFloat ''24.03''),
               (''start_date'', PStr ''2024-02-23''),
               (''end_date'', PStr ''2024-02-29''),
               (''daily'', PStr ''temperature_2m_max,temperature_2m_min,weather_code'')]
            # rest, r)
         \<and> filter is_weather_request rest = [])"
proof -
  have valid: "valid_date (date_of march_first)
      \<and> (1000 < year march_first
          \<or> (year march_first = 1000 \<and> (1 < month march_first \<or> 7 < day march_first)))"
    by (simp add: march_first_def date_of_def month_length_def)
  have seven: "days_ago 7 (date_of march_first) = (2024, 2, 23)"
    and one: "days_ago 1 (date_of march_first) = (2024, 2, 29)"
    by (simp_all add: days_ago_def date_of_def march_first_def eval_nat_numeral
        month_length_def leap_year_2024)
  have "weather_params march_first (PFloat ''49.84'') (PFloat ''24.03'') True
     = Inr [(''latitude'', PFloat ''49.84''), (''longitude'', PFloat ''24.03''),
            (''start_date'', PStr (iso_date (days_ago 7 (date_of march_first)))),
            (''end_date'', PStr (iso_date (days_ago 1 (date_of march_first)))),
            (''daily'', PStr ''temperature_2m_max,temperature_2m_min,weather_code'')]
   \<and> (\<exists>rest r. (fetch_weather_data failing_http march_first (PFloat ''49.84'') (PFloat ''24.03'')
                   True :: (unit event, pyval) run)
         = (Request WEATHER_API_URL
              [(''latitude'', PFloat ''49.84''), (''longitude'', PFloat ''24.03''),
               (''start_date'', PStr (iso_date (days_ago 7 (date_of march_first)))),
               (''end_date'', PStr (iso_date (days_ago 1 (date_of march_first)))),
               (''daily'', PStr ''temperature_2m_max,temperature_2m_min,weather_code'')]
            # rest, r)
         \<and> filter is_weather_request rest = [])"
    using valid by (rule historical_date_range [THEN conjunct1, rule_format])
  then show ?thesis
    by (simp only: seven one iso_date_february_23 iso_date_february_29)
qed

text \<open>
  The claim as stated fails for earlier call dates. On 0999-12-31 the request carries
  the start date "999-12-24", which is not the date seven days earlier written
  \<^verbatim>\<open>YYYY-MM-DD\<close> ("0999-12-24"); on 0001-01-03 the subtraction of seven days raises
  \<^verbatim>\<open>OverflowError\<close> and no request is built.
\<close>

theorem historical_dates_before_year_1000:
  "weather_params last_day_of_999 (PFloat ''49.84'') (PFloat ''24.03'') True
     = Inr [(''latitude'', PFloat ''49.84''), (''longitude'', PFloat ''24.03''),
            (''start_date'', PStr ''999-12-24''),
            (''end_date'', PStr ''999-12-30''),
            (''daily'', PStr ''temperature_2m_max,temperature_2m_min,weather_code'')]
   \<and> iso_date (days_ago 7 (date_of last_day_of_999)) = ''0999-12-24''
   \<and> \<not> iso_date_shape ''999-12-24''
   \<and> weather_params third_day_of_year_1 (PFloat ''49.84'') (PFloat ''24.03'') True
       = Inl OverflowError"
proof -
  have ord: "toordinal last_day_of_999 = 364877" "toordinal third_day_of_year_1 = 3"
    by (simp_all add: toordinal_def last_day_of_999_def third_day_of_year_1_def ymd2ord_def
        days_before_year_def days_before_month_def DAYS_BEFORE_MONTH_def is_leap_def)
  have s: "ord2ymd 364870 = (999, 12, 24)" and e: "ord2ymd 364876 = (999, 12, 30)"
    by (simp_all add: ord2ymd_def month_and_day_def DAYS_BEFORE_MONTH_def DAYS_IN_MONTH_def
        Let_def)
  have digits: "str_nat 999 = ''999''" "str_nat 12 = ''12''" "str_nat 24 = ''24''"
      "str_nat 30 = ''30''"
    by (simp_all add: str_nat.simps digit_char_def)
  have first: "weather_params last_day_of_999 (PFloat ''49.84'') (PFloat ''24.03'') True
     = Inr [(''latitude'', PFloat ''49.84''), (''longitude'', PFloat ''24.03''),
            (''start_date'', PStr ''999-12-24''),
            (''end_date'', PStr ''999-12-30''),
            (''daily'', PStr ''temperature_2m_max,temperature_2m_min,weather_code'')]"
    by (simp add: weather_params_def and_then_def minus_days_def ord s e MAXORDINAL_def
        strftime_Ymd_def zero_pad_def digits Let_def)
  have "days_ago 7 (date_of last_day_of_999) = (999, 12, 24)"
    by (simp add: days_ago_def date_of_def last_day_of_999_def eval_nat_numeral)
  then have second: "iso_date (days_ago 7 (date_of last_day_of_999)) = ''0999-12-24''"
    by (simp only: iso_date_december_24)
  have third: "\<not> iso_date_shape ''999-12-24''"
    by (simp add: iso_date_shape_def)
  have fourth: "weather_params third_day_of_year_1 (PFloat ''49.84'') (PFloat ''24.03'') True
       = Inl OverflowError"
    by (simp add: weather_params_def and_then_def minus_days_def ord Let_def)
  from first second third fourth show ?thesis by blast
qed

end
